theory Spec2Isabelle
  imports Complex_Main
begin

section \<open>Data model of the SCF convergence engine (electronic/SCF.cpp)\<close>

text \<open>
  A \<open>DataRptr\<close> is a scalar field sampled on the grid of the run; it is modelled by the
  list of its samples, with \<open>double\<close> idealised as \<open>real\<close>. A \<open>DataRptrCollection\<close>
  is a \<open>std::vector\<close> of such fields (one per spin channel).
\<close>

type_synonym DataR = "real list"
type_synonym DataRptrCollection = "DataR list"

text \<open>Modelled from the spec: the field operators of the JDFTx core (\<open>operator*\<close> with a
  scalar, \<open>operator+\<close>, the point-wise \<open>operator*\<close> and \<open>integral\<close>) are not among the
  sources. The spec has the mixing work field by field on same-shaped arrays, and the
  inner product integrate the point-wise product over the domain as a weighted dot
  product: the operators act sample by sample, and \<open>integral\<close> is the sum of the
  samples weighted with the volume element \<open>dV\<close> of the grid.\<close>

definition scaleD :: "real \<Rightarrow> DataR \<Rightarrow> DataR" where
  "scaleD a x = map (\<lambda>v. a * v) x"

definition addD :: "DataR \<Rightarrow> DataR \<Rightarrow> DataR" where
  "addD x y = map2 (+) x y"

definition mulD :: "DataR \<Rightarrow> DataR \<Rightarrow> DataR" where
  "mulD x y = map2 (*) x y"

definition integral :: "real \<Rightarrow> DataR \<Rightarrow> real" where
  "integral dV x = dV * sum_list x"

text \<open>What the source can run into besides a result: an index past the end of a
  \<open>std::vector\<close> or of the overlap matrix (undefined behaviour or a failed assertion of
  the container), collections of different sizes handed to \<open>axpy\<close>, and the division
  by a zero sum of coefficients in \<open>mixDIIS\<close>, after which every sample written is
  \<open>inf\<close> or \<open>NaN\<close>. The reals cannot hold these values, so \<open>mixDIIS\<close> reports
  \<open>NonFinite\<close> for such a call; the C++ goes on with them, and so does the loop of
  \<open>SCF::minimize\<close> below.\<close>

datatype scf_error = OutOfRange | SizeMismatch | NonFinite

datatype MixedVariable = density | potential

datatype VectorExtrapolationMethod = plainMixing | DIIS

text \<open>\<open>e.residualMinimizerParams\<close>: the configuration of the run. The declaration is not
  among the sources; the fields are the ones SCF.cpp reads. \<open>history\<close> is compared with
  \<open>std::vector::size()\<close> and sizes the overlap matrix, so it is a natural number here.\<close>

record ResidualMinimizerParams =
  nIterations :: int
  energyDiffThreshold :: real
  history :: nat
  vectorExtrapolationMethod :: VectorExtrapolationMethod
  mixedVariable :: MixedVariable

text \<open>\<open>e.eVars\<close>: the electron density \<open>n\<close>, the local potential \<open>Vscloc\<close>, the
  kinetic-energy density \<open>tau\<close> and its potential \<open>Vtau\<close>. Everything else that the
  external solver reads and writes (wavefunctions, energies, the \<open>fixed_n\<close> flag) is
  the opaque component \<open>eVars_rest\<close>.\<close>

record 'x ElecVars =
  eVars_n :: DataRptrCollection
  eVars_Vscloc :: DataRptrCollection
  eVars_tau :: DataRptrCollection
  eVars_Vtau :: DataRptrCollection
  eVars_rest :: 'x

text \<open>The references \<open>variable_n\<close> and \<open>variable_tau\<close> of \<open>SCF::minimize\<close> (lines 47-48)
  are bound to \<open>eVars.n\<close> or \<open>eVars.Vscloc\<close>, and to \<open>eVars.tau\<close> or \<open>eVars.Vtau\<close>.
  A reference is modelled by the name of the member it is bound to.\<close>

datatype n_ref = ref_n | ref_Vscloc

datatype tau_ref = ref_tau | ref_Vtau

fun get_n :: "n_ref \<Rightarrow> 'x ElecVars \<Rightarrow> DataRptrCollection" where
  "get_n ref_n ev = eVars_n ev"
| "get_n ref_Vscloc ev = eVars_Vscloc ev"

fun set_n :: "n_ref \<Rightarrow> DataRptrCollection \<Rightarrow> 'x ElecVars \<Rightarrow> 'x ElecVars" where
  "set_n ref_n v ev = ev\<lparr>eVars_n := v\<rparr>"
| "set_n ref_Vscloc v ev = ev\<lparr>eVars_Vscloc := v\<rparr>"

fun get_tau :: "tau_ref \<Rightarrow> 'x ElecVars \<Rightarrow> DataRptrCollection" where
  "get_tau ref_tau ev = eVars_tau ev"
| "get_tau ref_Vtau ev = eVars_Vtau ev"

fun set_tau :: "tau_ref \<Rightarrow> DataRptrCollection \<Rightarrow> 'x ElecVars \<Rightarrow> 'x ElecVars" where
  "set_tau ref_tau v ev = ev\<lparr>eVars_tau := v\<rparr>"
| "set_tau ref_Vtau v ev = ev\<lparr>eVars_Vtau := v\<rparr>"

text \<open>\<open>std::vector::back()\<close>. On an empty vector the reference it returns dangles
  (\<open>None\<close>); reading through it is out of range.\<close>

definition vector_back :: "'a list \<Rightarrow> 'a option" where
  "vector_back xs = (if xs = [] then None else Some (last xs))"

section \<open>SCF::mixPlain (lines 111-119)\<close>

text \<open>One pass of the loop body at index \<open>s\<close>: line 115 assigns through the reference
  \<open>variable_n\<close>; line 117 reads through \<open>variable_tau\<close> and assigns to \<open>e.eVars.tau\<close>.\<close>

definition mixPlain_body ::
  "bool \<Rightarrow> n_ref \<Rightarrow> tau_ref \<Rightarrow> DataRptrCollection \<Rightarrow> DataRptrCollection option \<Rightarrow> real
    \<Rightarrow> nat \<Rightarrow> 'x ElecVars \<Rightarrow> 'x ElecVars" where
  "mixPlain_body needsKEdensity variable_n variable_tau prevVariable_n prevVariable_tau mixFraction s ev =
    (let ev1 = set_n variable_n
           ((get_n variable_n ev)
              [s := addD (scaleD mixFraction (get_n variable_n ev ! s))
                         (scaleD (1 - mixFraction) (prevVariable_n ! s))]) ev
     in if needsKEdensity
        then (case prevVariable_tau of
                None \<Rightarrow> ev1
              | Some prev_tau \<Rightarrow>
                  ev1\<lparr>eVars_tau := (eVars_tau ev1)
                     [s := addD (scaleD mixFraction (get_tau variable_tau ev1 ! s))
                                (scaleD (1 - mixFraction) (prev_tau ! s))]\<rparr>)
        else ev1)"

text \<open>Every index the loop uses is within its vector: \<open>s\<close> runs below
  \<open>e.eVars.n.size()\<close> and indexes \<open>variable_n\<close>, \<open>prevVariable_n\<close> and, when the
  kinetic-energy density is needed, \<open>variable_tau\<close>, \<open>prevVariable_tau\<close> and
  \<open>e.eVars.tau\<close>. No assignment of the loop changes a size, so the condition is the
  same before every pass.\<close>

definition mixPlain_in_range ::
  "bool \<Rightarrow> n_ref \<Rightarrow> tau_ref \<Rightarrow> DataRptrCollection \<Rightarrow> DataRptrCollection option
    \<Rightarrow> 'x ElecVars \<Rightarrow> bool" where
  "mixPlain_in_range needsKEdensity variable_n variable_tau prevVariable_n prevVariable_tau ev =
    (let sz = length (eVars_n ev) in
       sz \<le> length (get_n variable_n ev) \<and> sz \<le> length prevVariable_n \<and>
       (if needsKEdensity \<and> 0 < sz
        then sz \<le> length (eVars_tau ev) \<and> sz \<le> length (get_tau variable_tau ev) \<and>
             (case prevVariable_tau of None \<Rightarrow> False | Some prev_tau \<Rightarrow> sz \<le> length prev_tau)
        else True))"

definition mixPlain ::
  "bool \<Rightarrow> n_ref \<Rightarrow> tau_ref \<Rightarrow> DataRptrCollection \<Rightarrow> DataRptrCollection option \<Rightarrow> real
    \<Rightarrow> 'x ElecVars \<Rightarrow> scf_error + 'x ElecVars" where
  "mixPlain needsKEdensity variable_n variable_tau prevVariable_n prevVariable_tau mixFraction ev =
    (if mixPlain_in_range needsKEdensity variable_n variable_tau prevVariable_n prevVariable_tau ev
     then Inr (fold (mixPlain_body needsKEdensity variable_n variable_tau
                       prevVariable_n prevVariable_tau mixFraction)
                 [0..<length (eVars_n ev)] ev)
     else Inl OutOfRange)"

section \<open>The overlap matrix and the run state\<close>

text \<open>Modelled from the spec: the class \<open>matrix\<close> is not among the sources. The spec
  has the overlap matrix a real matrix of at most \<open>H \<times> H\<close> entries addressed by row and
  column; only the real part of an entry is ever read (line 166), so entries are reals.
  \<open>matrix_set\<close> is \<open>matrix::set\<close>, \<open>matrix_sub\<close> is the sub-matrix
  \<open>operator()(iStart,iStop,jStart,jStop)\<close>.\<close>

record matrix =
  nRows :: nat
  nCols :: nat
  elem :: "nat \<Rightarrow> nat \<Rightarrow> real"

definition matrix_set :: "nat \<Rightarrow> nat \<Rightarrow> real \<Rightarrow> matrix \<Rightarrow> matrix" where
  "matrix_set i j m M = M\<lparr>elem := (elem M)(i := (elem M i)(j := m))\<rparr>"

definition matrix_sub :: "matrix \<Rightarrow> nat \<Rightarrow> nat \<Rightarrow> nat \<Rightarrow> nat \<Rightarrow> matrix" where
  "matrix_sub M iStart iStop jStart jStop =
    \<lparr>nRows = iStop - iStart, nCols = jStop - jStart,
     elem = (\<lambda>i j. if i < iStop - iStart \<and> j < jStop - jStart
                     then elem M (iStart + i) (jStart + j) else 0)\<rparr>"

text \<open>What SCF.cpp reads of \<open>e\<close> and never writes: the parameters, whether the
  functional needs the kinetic-energy density, the volume element behind \<open>integral\<close>,
  the default value of the last argument of \<open>mixPlain\<close> (declared in SCF.h), and the
  collaborators: lines 38-43 (energy of the initial guess), lines 73-85 (band
  minimisation at fixed Hamiltonian, then the new density and its energy),
  \<open>EdensityAndVscloc\<close> (line 105) and \<open>matrix::diagonalize\<close> (line 152), which
  returns the eigenvectors as columns and the eigenvalues.\<close>

record 'x Everything =
  residualMinimizerParams :: ResidualMinimizerParams
  exCorr_needsKEdensity :: bool
  gInfo_dV :: real
  mixFraction_default :: real
  initialEnergy :: "'x ElecVars \<Rightarrow> 'x ElecVars"
  solveFixedHamiltonian :: "'x ElecVars \<Rightarrow> real \<times> 'x ElecVars"
  EdensityAndVscloc :: "'x ElecVars \<Rightarrow> 'x ElecVars"
  diagonalize :: "matrix \<Rightarrow> matrix \<times> (nat \<Rightarrow> real)"

text \<open>The state that \<open>SCF::minimize\<close> and the mixing routines change: \<open>e.eVars\<close>, the
  member \<open>overlap\<close>, the three histories, the locals \<open>Eprev\<close> and \<open>E\<close> (\<open>Etot\<close> in
  the log line), and the lines \<open>(scfCounter, Eprev, E)\<close> written by line 87.

  An energy is \<open>None\<close> while the program does not determine its value: \<open>E\<close> is declared
  without an initialiser (line 54), and an energy computed from fields that are not
  finite is not a real number. \<open>fieldsFinite\<close> is \<open>False\<close> from the moment line 177 has
  divided by a zero sum: the samples of the fields are \<open>inf\<close> or \<open>NaN\<close> in the program
  from then on, and of the fields in \<open>eVars\<close> and in the histories only the shapes, of
  the overlap matrix only the dimensions, are those of the program.\<close>

record 'x scf_state =
  eVars :: "'x ElecVars"
  overlap :: matrix
  pastVariables_n :: "DataRptrCollection list"
  pastVariables_tau :: "DataRptrCollection list"
  pastResiduals :: "DataRptrCollection list"
  Eprev :: "real option"
  Etot :: "real option"
  scfLog :: "(nat \<times> real option \<times> real option) list"
  fieldsFinite :: bool

definition variable_n :: "'x Everything \<Rightarrow> n_ref" where
  "variable_n e =
    (if mixedVariable (residualMinimizerParams e) = density then ref_n else ref_Vscloc)"

definition variable_tau :: "'x Everything \<Rightarrow> tau_ref" where
  "variable_tau e =
    (if mixedVariable (residualMinimizerParams e) = density then ref_tau else ref_Vtau)"

section \<open>SCF::mixDIIS (lines 121-187)\<close>

text \<open>Modelled from the spec: \<open>axpy\<close> is not among the sources. Lines 129-130 form the
  residual with it, which the spec has as new minus old field:
  \<open>axpy(alpha, X, Y)\<close> on collections is \<open>Y[i] += alpha * X[i]\<close>.\<close>

definition axpy :: "real \<Rightarrow> DataRptrCollection \<Rightarrow> DataRptrCollection \<Rightarrow> DataRptrCollection" where
  "axpy alpha X Y = map2 (\<lambda>x y. addD y (scaleD alpha x)) X Y"

text \<open>The macro of lines 28-29.\<close>

definition overlapResiduals :: "real \<Rightarrow> DataRptrCollection \<Rightarrow> DataRptrCollection \<Rightarrow> real" where
  "overlapResiduals dV r1 r2 =
    integral dV (mulD (r1 ! 0) (r2 ! 0)) +
    (if length r1 = 2 then integral dV (mulD (r1 ! 1) (r2 ! 1)) else 0)"

definition overlapResiduals_in_range :: "DataRptrCollection \<Rightarrow> DataRptrCollection \<Rightarrow> bool" where
  "overlapResiduals_in_range r1 r2 =
    (0 < length r1 \<and> 0 < length r2 \<and> (if length r1 = 2 then 2 \<le> length r2 else True))"

text \<open>Lines 137-141, one pass at index \<open>j\<close>.\<close>

definition overlapLoop_body ::
  "real \<Rightarrow> DataRptrCollection list \<Rightarrow> nat \<Rightarrow> nat \<Rightarrow> matrix \<Rightarrow> matrix" where
  "overlapLoop_body dV pastRes ndim j M =
    (let tempOverlap = overlapResiduals dV (pastRes ! j) (last pastRes);
         M1 = matrix_set j (ndim - 1) tempOverlap M
     in if j \<noteq> ndim - 1 then matrix_set (ndim - 1) j tempOverlap M1 else M1)"

definition overlap_in_range :: "DataRptrCollection list \<Rightarrow> matrix \<Rightarrow> bool" where
  "overlap_in_range pastRes M =
    (length pastRes \<le> nRows M \<and> length pastRes \<le> nCols M \<and>
     list_all (\<lambda>r. overlapResiduals_in_range r (last pastRes)) pastRes)"

text \<open>Lines 171-175, one pass at index \<open>s\<close>: the operator \<open>*=\<close> scales the field in
  place.\<close>

definition mixDIIS_zero ::
  "bool \<Rightarrow> n_ref \<Rightarrow> tau_ref \<Rightarrow> nat \<Rightarrow> 'x ElecVars \<times> DataRptrCollection
    \<Rightarrow> 'x ElecVars \<times> DataRptrCollection" where
  "mixDIIS_zero needsKEdensity var_n var_tau s acc =
    (let ev = fst acc; residual = snd acc;
         ev1 = set_n var_n ((get_n var_n ev)[s := scaleD 0 (get_n var_n ev ! s)]) ev;
         residual1 = residual[s := scaleD 0 (residual ! s)];
         ev2 = (if needsKEdensity
                then set_tau var_tau ((get_tau var_tau ev1)[s := scaleD 0 (get_tau var_tau ev1 ! s)]) ev1
                else ev1)
     in (ev2, residual1))"

text \<open>Lines 178-182, one pass at index \<open>s\<close> for the history entry \<open>j\<close>.\<close>

definition mixDIIS_accumulate ::
  "bool \<Rightarrow> n_ref \<Rightarrow> tau_ref \<Rightarrow> DataRptrCollection list \<Rightarrow> DataRptrCollection list
    \<Rightarrow> DataRptrCollection list \<Rightarrow> real \<Rightarrow> nat \<Rightarrow> nat \<Rightarrow> 'x ElecVars \<times> DataRptrCollection
    \<Rightarrow> 'x ElecVars \<times> DataRptrCollection" where
  "mixDIIS_accumulate needsKEdensity var_n var_tau pastVar_n pastVar_tau pastRes weight j s acc =
    (let ev = fst acc; residual = snd acc;
         ev1 = set_n var_n
                 ((get_n var_n ev)[s := addD (get_n var_n ev ! s) (scaleD weight (pastVar_n ! j ! s))]) ev;
         residual1 = residual[s := addD (residual ! s) (scaleD weight (pastRes ! j ! s))];
         ev2 = (if needsKEdensity
                then set_tau var_tau
                       ((get_tau var_tau ev1)
                          [s := addD (get_tau var_tau ev1 ! s) (scaleD weight (pastVar_tau ! j ! s))]) ev1
                else ev1)
     in (ev2, residual1))"

text \<open>Every index of lines 170-183 is within its vector: \<open>s\<close> runs below
  \<open>e.eVars.n.size()\<close> and \<open>j\<close> below \<open>ndim\<close>, the number of residuals.\<close>

definition mixDIIS_in_range ::
  "bool \<Rightarrow> n_ref \<Rightarrow> tau_ref \<Rightarrow> DataRptrCollection list \<Rightarrow> DataRptrCollection list
    \<Rightarrow> DataRptrCollection list \<Rightarrow> 'x ElecVars \<Rightarrow> bool" where
  "mixDIIS_in_range needsKEdensity var_n var_tau pastVar_n pastVar_tau pastRes ev =
    (let sz = length (eVars_n ev); ndim = length pastRes in
       sz \<le> length (get_n var_n ev) \<and> sz \<le> length (last pastRes) \<and>
       (if needsKEdensity then sz \<le> length (get_tau var_tau ev) else True) \<and>
       (if 0 < sz
        then ndim \<le> length pastVar_n \<and>
             list_all (\<lambda>c. sz \<le> length c) (take ndim pastVar_n) \<and>
             list_all (\<lambda>c. sz \<le> length c) pastRes \<and>
             (if needsKEdensity
              then ndim \<le> length pastVar_tau \<and>
                   list_all (\<lambda>c. sz \<le> length c) (take ndim pastVar_tau)
              else True)
        else True))"

text \<open>Lines 128-141: the new residual is appended and its overlaps are written into the
  last row and column of the block. The range conditions come first: an index out of
  range anywhere makes the whole call undefined.\<close>

definition cacheResidual :: "'x Everything \<Rightarrow> n_ref \<Rightarrow> 'x scf_state \<Rightarrow> scf_error + 'x scf_state" where
  "cacheResidual e var_n st =
    (case vector_back (pastVariables_n st) of
       None \<Rightarrow> Inl OutOfRange
     | Some prev_n \<Rightarrow>
        if length prev_n \<noteq> length (get_n var_n (eVars st)) then Inl SizeMismatch
        else
          let temp = axpy (- 1) prev_n (get_n var_n (eVars st));
              pastRes = pastResiduals st @ [temp];
              ndim = length pastRes
          in if overlap_in_range pastRes (overlap st)
             then Inr (st\<lparr>pastResiduals := pastRes,
                         overlap := fold (overlapLoop_body (gInfo_dV e) pastRes ndim) [0..<ndim]
                                      (overlap st)\<rparr>)
             else Inl OutOfRange)"

text \<open>Lines 149-186, on the state left by lines 128-141. The result holds the new
  state and the local \<open>residual\<close> whose norm line 186 logs. A zero \<open>norm\<close> makes the
  weight of line 177 \<open>inf\<close> or \<open>NaN\<close>.\<close>

definition extrapolate ::
  "'x Everything \<Rightarrow> n_ref \<Rightarrow> tau_ref \<Rightarrow> 'x scf_state
    \<Rightarrow> scf_error + ('x scf_state \<times> DataRptrCollection option)" where
  "extrapolate e var_n var_tau st =
    (let ndim = length (pastResiduals st);
         thisOverlap = matrix_sub (overlap st) 0 ndim 0 ndim;
         overlapEvecs = fst (diagonalize e thisOverlap);
         norm = fold (\<lambda>j nrm. nrm + elem overlapEvecs j 0) [0..<ndim] 0;
         sz = length (eVars_n (eVars st))
     in if \<not> mixDIIS_in_range (exCorr_needsKEdensity e) var_n var_tau
                (pastVariables_n st) (pastVariables_tau st) (pastResiduals st) (eVars st)
        then Inl OutOfRange
        else if norm = 0 then Inl NonFinite
        else
          let zeroed = fold (mixDIIS_zero (exCorr_needsKEdensity e) var_n var_tau)
                         [0..<sz] (eVars st, last (pastResiduals st));
              mixed = fold (\<lambda>j. fold (mixDIIS_accumulate (exCorr_needsKEdensity e)
                                        var_n var_tau (pastVariables_n st)
                                        (pastVariables_tau st) (pastResiduals st)
                                        (elem overlapEvecs j 0 / norm) j) [0..<sz])
                        [0..<ndim] zeroed
          in Inr (st\<lparr>eVars := fst mixed\<rparr>, Some (snd mixed)))"

text \<open>The routine: lines 128-141, the test of line 144 with the call of \<open>mixPlain\<close>, and
  lines 149-186 otherwise. In the branch of line 145 no \<open>residual\<close> is formed.\<close>

definition mixDIIS ::
  "'x Everything \<Rightarrow> n_ref \<Rightarrow> tau_ref \<Rightarrow> 'x scf_state
    \<Rightarrow> scf_error + ('x scf_state \<times> DataRptrCollection option)" where
  "mixDIIS e var_n var_tau st =
    (case cacheResidual e var_n st of
       Inl err \<Rightarrow> Inl err
     | Inr st1 \<Rightarrow>
         if length (pastResiduals st1) \<noteq> history (residualMinimizerParams e)
         then (case vector_back (pastVariables_n st1) of
                 None \<Rightarrow> Inl OutOfRange
               | Some prev_n \<Rightarrow>
                  (case mixPlain (exCorr_needsKEdensity e) var_n var_tau prev_n
                          (vector_back (pastVariables_tau st1)) (mixFraction_default e) (eVars st1) of
                     Inl err \<Rightarrow> Inl err
                   | Inr ev \<Rightarrow> Inr (st1\<lparr>eVars := ev\<rparr>, None)))
         else extrapolate e var_n var_tau st1)"

section \<open>SCF::minimize (lines 31-109)\<close>

text \<open>Lines 59-65.\<close>

definition clearHistory :: "'x Everything \<Rightarrow> 'x scf_state \<Rightarrow> 'x scf_state" where
  "clearHistory e st =
    (if history (residualMinimizerParams e) \<le> length (pastResiduals st) \<or>
        history (residualMinimizerParams e) \<le> length (pastVariables_n st)
     then st\<lparr>pastVariables_n := [],
             pastVariables_tau := (if exCorr_needsKEdensity e then [] else pastVariables_tau st),
             pastResiduals := (if vectorExtrapolationMethod (residualMinimizerParams e) = DIIS
                               then [] else pastResiduals st)\<rparr>
     else st)"

text \<open>Lines 67-70: \<open>clone\<close> copies the fields, so the history holds their values.\<close>

definition cacheVariables :: "'x Everything \<Rightarrow> 'x scf_state \<Rightarrow> 'x scf_state" where
  "cacheVariables e st =
    st\<lparr>Eprev := Etot st,
       pastVariables_n := pastVariables_n st @ [get_n (variable_n e) (eVars st)],
       pastVariables_tau := (if exCorr_needsKEdensity e
                             then pastVariables_tau st @ [get_tau (variable_tau e) (eVars st)]
                             else pastVariables_tau st)\<rparr>"

text \<open>Lines 72-87: the inner solver runs, \<open>E\<close> is assigned and the line of the pass is
  logged. On fields that are not finite the energy is not a value the model has.\<close>

definition solveStep :: "'x Everything \<Rightarrow> nat \<Rightarrow> 'x scf_state \<Rightarrow> 'x scf_state" where
  "solveStep e scfCounter st =
    (let r = solveFixedHamiltonian e (eVars st);
         E = (if fieldsFinite st then Some (fst r) else None)
     in st\<lparr>eVars := snd r, Etot := E,
           scfLog := scfLog st @ [(scfCounter, Eprev st, E)]\<rparr>)"

text \<open>Line 90, the test \<open>fabs(E-Eprev) < rp.energyDiffThreshold\<close> in the pass
  \<open>scfCounter\<close>. When one of the two energies is not determined (in pass 0 \<open>Eprev\<close> is
  the copy that line 68 made of the uninitialised \<open>E\<close>), the program does not
  determine the outcome of the test either: \<open>undetermined scfCounter\<close> stands for
  it. The model gives the read of line 68 no value, and what is proved of a run is
  proved for every \<open>undetermined\<close>.\<close>

definition energyTest :: "'x Everything \<Rightarrow> (nat \<Rightarrow> bool) \<Rightarrow> nat \<Rightarrow> 'x scf_state \<Rightarrow> bool" where
  "energyTest e undetermined scfCounter st =
    (case Etot st of
       None \<Rightarrow> undetermined scfCounter
     | Some E \<Rightarrow>
        (case Eprev st of
           None \<Rightarrow> undetermined scfCounter
         | Some Ep \<Rightarrow> \<bar>E - Ep\<bar> < energyDiffThreshold (residualMinimizerParams e)))"

text \<open>Lines 96-105. Nothing leaves the loop when line 177 has divided by a zero sum:
  \<open>mixDIIS\<close> returns with the residual cached by lines 128-141 and with fields of the
  same shapes that are no longer finite, and line 104 goes on.\<close>

definition mixStep :: "'x Everything \<Rightarrow> 'x scf_state \<Rightarrow> scf_error + 'x scf_state" where
  "mixStep e st =
    (let mixedSt =
       (case vectorExtrapolationMethod (residualMinimizerParams e) of
          plainMixing \<Rightarrow>
            (case vector_back (pastVariables_n st) of
               None \<Rightarrow> Inl OutOfRange
             | Some prev_n \<Rightarrow>
                 (case mixPlain (exCorr_needsKEdensity e) (variable_n e) (variable_tau e) prev_n
                         (vector_back (pastVariables_tau st)) (mixFraction_default e) (eVars st) of
                    Inl err \<Rightarrow> Inl err
                  | Inr ev \<Rightarrow> Inr (st\<lparr>eVars := ev\<rparr>)))
        | DIIS \<Rightarrow>
            (case mixDIIS e (variable_n e) (variable_tau e) st of
               Inl NonFinite \<Rightarrow>
                 (case cacheResidual e (variable_n e) st of
                    Inl err \<Rightarrow> Inl err
                  | Inr st1 \<Rightarrow> Inr (st1\<lparr>fieldsFinite := False\<rparr>))
             | Inl err \<Rightarrow> Inl err
             | Inr r \<Rightarrow> Inr (fst r)))
     in case mixedSt of
          Inl err \<Rightarrow> Inl err
        | Inr st1 \<Rightarrow>
            Inr (if mixedVariable (residualMinimizerParams e) = density
                 then st1\<lparr>eVars := EdensityAndVscloc e (eVars st1)\<rparr> else st1))"

text \<open>What a run ends with: the state, whether the loop left through the \<open>break\<close> of
  line 92 (``Residual Minimization Converged''), the number of passes of the loop body,
  and, if an index ran out of range or collections of different sizes met (where the
  C++ is undefined or stops on an assertion), why. \<open>visited\<close> lists the states at the
  program points of every pass (after lines 65, 70, 87 and 106), in order.\<close>

record 'x scf_run =
  final :: "'x scf_state"
  converged :: bool
  iterations :: nat
  failure :: "scf_error option"
  visited :: "'x scf_state list"

text \<open>The loop of lines 57-107, entered with the counter \<open>scfCounter\<close>.\<close>

function scfLoop ::
  "'x Everything \<Rightarrow> (nat \<Rightarrow> bool) \<Rightarrow> nat \<Rightarrow> 'x scf_state list \<Rightarrow> 'x scf_state \<Rightarrow> 'x scf_run" where
  "scfLoop e undetermined scfCounter seen st =
    (if int scfCounter < nIterations (residualMinimizerParams e)
     then
       let st1 = clearHistory e st;
           st2 = cacheVariables e st1;
           st3 = solveStep e scfCounter st2
       in if energyTest e undetermined scfCounter st3
          then \<lparr>final = st3, converged = True, iterations = Suc scfCounter, failure = None,
                visited = seen @ [st1, st2, st3]\<rparr>
          else (case mixStep e st3 of
                  Inl err \<Rightarrow> \<lparr>final = st3, converged = False, iterations = Suc scfCounter,
                              failure = Some err, visited = seen @ [st1, st2, st3]\<rparr>
                | Inr st4 \<Rightarrow>
                    scfLoop e undetermined (Suc scfCounter) (seen @ [st1, st2, st3, st4]) st4)
     else \<lparr>final = st, converged = False, iterations = scfCounter, failure = None,
           visited = seen\<rparr>)"
  by pat_completeness auto
termination
  by (relation "measure (\<lambda>(e, undetermined, scfCounter, seen, st).
        nat (nIterations (residualMinimizerParams e) - int scfCounter))") auto

text \<open>\<open>SCF::minimize\<close>. Line 54 initialises \<open>Eprev\<close> with 0 and leaves \<open>E\<close> without a
  value. The constructor (line 22) allocates \<open>overlap\<close> as a \<open>history \<times> history\<close>
  matrix; \<open>overlap_start\<close> is its content.\<close>

definition minimize ::
  "'x Everything \<Rightarrow> 'x ElecVars \<Rightarrow> (nat \<Rightarrow> bool) \<Rightarrow> (nat \<Rightarrow> nat \<Rightarrow> real) \<Rightarrow> 'x scf_run" where
  "minimize e ev undetermined overlap_start =
    scfLoop e undetermined 0 []
      \<lparr>eVars = initialEnergy e ev,
       overlap = \<lparr>nRows = history (residualMinimizerParams e),
                  nCols = history (residualMinimizerParams e), elem = overlap_start\<rparr>,
       pastVariables_n = [], pastVariables_tau = [], pastResiduals = [],
       Eprev = Some 0, Etot = None, scfLog = [], fieldsFinite = True\<rparr>"

section \<open>Notions used to state the properties\<close>

text \<open>No history holds more than \<open>H\<close> entries.\<close>

definition history_bounded :: "nat \<Rightarrow> 'x scf_state \<Rightarrow> bool" where
  "history_bounded H st =
    (length (pastVariables_n st) \<le> H \<and> length (pastVariables_tau st) \<le> H \<and>
     length (pastResiduals st) \<le> H)"

text \<open>The histories of residuals and of auxiliary snapshots are never longer than the
  history of snapshots, and stay empty when they are not in use.\<close>

definition history_lockstep :: "'x Everything \<Rightarrow> 'x scf_state \<Rightarrow> bool" where
  "history_lockstep e st =
    ((if vectorExtrapolationMethod (residualMinimizerParams e) = DIIS
      then length (pastResiduals st) \<le> length (pastVariables_n st) else pastResiduals st = []) \<and>
     (if exCorr_needsKEdensity e
      then length (pastVariables_tau st) \<le> length (pastVariables_n st) else pastVariables_tau st = []))"

text \<open>The inner product of two residuals in the spec's words: the sum over the fields of
  the integrated point-wise product.\<close>

definition inner_product :: "real \<Rightarrow> DataRptrCollection \<Rightarrow> DataRptrCollection \<Rightarrow> real" where
  "inner_product dV r1 r2 = sum_list (map2 (\<lambda>x y. integral dV (mulD x y)) r1 r2)"

text \<open>A collection of \<open>sz\<close> fields with \<open>m\<close> samples each.\<close>

definition same_shape :: "nat \<Rightarrow> nat \<Rightarrow> DataRptrCollection \<Rightarrow> bool" where
  "same_shape sz m c = (length c = sz \<and> list_all (\<lambda>f. length f = m) c)"

text \<open>The components of the eigenvector that lines 166 and 177 read (column 0 of
  \<open>overlapEvecs\<close>), the weights of line 177, and the weighted sum of a history at
  field \<open>s\<close> and sample \<open>i\<close>.\<close>

definition diis_coefficients :: "'x Everything \<Rightarrow> 'x scf_state \<Rightarrow> real list" where
  "diis_coefficients e st =
    (let ndim = length (pastResiduals st)
     in map (\<lambda>j. elem (fst (diagonalize e (matrix_sub (overlap st) 0 ndim 0 ndim))) j 0) [0..<ndim])"

definition diis_weights :: "'x Everything \<Rightarrow> 'x scf_state \<Rightarrow> real list" where
  "diis_weights e st =
    map (\<lambda>c. c / sum_list (diis_coefficients e st)) (diis_coefficients e st)"

definition weighted_sum :: "real list \<Rightarrow> DataRptrCollection list \<Rightarrow> nat \<Rightarrow> nat \<Rightarrow> real" where
  "weighted_sum w xs s i = sum_list (map (\<lambda>j. w ! j * (xs ! j ! s ! i)) [0..<length w])"

text \<open>A loop that replaces the entries below \<open>k\<close> of a vector one by one, each by a
  function of its index and its value.\<close>

definition upd_each :: "(nat \<Rightarrow> 'a \<Rightarrow> 'a) \<Rightarrow> nat \<Rightarrow> 'a list \<Rightarrow> 'a list" where
  "upd_each g k xs = fold (\<lambda>s xs. xs[s := g s (xs ! s)]) [0..<k] xs"

section \<open>Example configurations\<close>

text \<open>A state with one spin channel on a grid of two points.\<close>

definition ex_ev :: "unit ElecVars" where
  "ex_ev = \<lparr>eVars_n = [[1, 2]], eVars_Vscloc = [[3, 4]], eVars_tau = [[5, 6]],
            eVars_Vtau = [[7, 8]], eVars_rest = ()\<rparr>"

text \<open>A solver that halves the density and reports the sum of its samples as the energy;
  a configuration with plain mixing, three iterations at most and threshold 1; and the
  same with one iteration at most.\<close>

definition ex_solve :: "unit ElecVars \<Rightarrow> real \<times> unit ElecVars" where
  "ex_solve ev =
    (sum_list (map sum_list (map (scaleD (1 / 2)) (eVars_n ev))),
     ev\<lparr>eVars_n := map (scaleD (1 / 2)) (eVars_n ev)\<rparr>)"

definition ex_e :: "unit Everything" where
  "ex_e = \<lparr>residualMinimizerParams =
             \<lparr>nIterations = 3, energyDiffThreshold = 1, history = 2,
              vectorExtrapolationMethod = plainMixing, mixedVariable = density\<rparr>,
           exCorr_needsKEdensity = False, gInfo_dV = 1, mixFraction_default = 1 / 2,
           initialEnergy = (\<lambda>ev. ev), solveFixedHamiltonian = ex_solve,
           EdensityAndVscloc = (\<lambda>ev. ev),
           diagonalize = (\<lambda>M. (M, (\<lambda>i. 0)))\<rparr>"

definition ex_e1 :: "unit Everything" where
  "ex_e1 = ex_e\<lparr>residualMinimizerParams :=
                 (residualMinimizerParams ex_e)\<lparr>nIterations := 1\<rparr>\<rparr>"

text \<open>The same configuration with threshold 0: no run converges.\<close>

definition ex_e0 :: "unit Everything" where
  "ex_e0 = ex_e\<lparr>residualMinimizerParams :=
                 (residualMinimizerParams ex_e)\<lparr>energyDiffThreshold := 0\<rparr>\<rparr>"

text \<open>A configuration with DIIS and history depth 2. Its \<open>diagonalize\<close> returns the
  eigenvectors \<open>(1, 1) / sqrt 2\<close> and \<open>(- 1, 1) / sqrt 2\<close> of the matrix with rows
  \<open>(5, - 4)\<close> and \<open>(- 4, 5)\<close>, eigenvalues 1 and 9. In the state \<open>ex_st\<close> one residual
  \<open>(2, - 1)\<close> is in the history; the call of \<open>mixDIIS\<close> adds \<open>(- 1, 2)\<close>.\<close>

definition ex_evecs :: matrix where
  "ex_evecs = \<lparr>nRows = 2, nCols = 2,
     elem = (\<lambda>i j. if i = 0 \<and> j = 1 then - 1 / sqrt 2 else 1 / sqrt 2)\<rparr>"

definition ex_diis :: "unit Everything" where
  "ex_diis = \<lparr>residualMinimizerParams =
             \<lparr>nIterations = 3, energyDiffThreshold = 0, history = 2,
              vectorExtrapolationMethod = DIIS, mixedVariable = density\<rparr>,
           exCorr_needsKEdensity = False, gInfo_dV = 1, mixFraction_default = 1 / 2,
           initialEnergy = (\<lambda>ev. ev), solveFixedHamiltonian = ex_solve,
           EdensityAndVscloc = (\<lambda>ev. ev),
           diagonalize = (\<lambda>M. (ex_evecs, (\<lambda>i. if i = 0 then 1 else 9)))\<rparr>"

definition ex_st :: "unit scf_state" where
  "ex_st = \<lparr>eVars = ex_ev,
     overlap = \<lparr>nRows = 2, nCols = 2, elem = (\<lambda>i j. if i = 0 \<and> j = 0 then 5 else 0)\<rparr>,
     pastVariables_n = [[[0, 0]], [[2, 0]]], pastVariables_tau = [],
     pastResiduals = [[[2, - 1]]], Eprev = Some 0, Etot = Some 0, scfLog = [], fieldsFinite = True\<rparr>"

text \<open>The state \<open>ex_st\<close> before any residual was cached.\<close>

definition ex_st0 :: "unit scf_state" where
  "ex_st0 = ex_st\<lparr>pastVariables_n := [[[2, 0]]], pastResiduals := []\<rparr>"

text \<open>DIIS with history depth 1, where \<open>diagonalize\<close> returns the unit eigenvector of a
  1 by 1 matrix, and the same configuration with plain mixing. In the state \<open>ex_st1\<close>
  the snapshot \<open>(0, 0)\<close> was cached and the solver has set the density to \<open>(1, 2)\<close>.\<close>

definition ex_diis1 :: "unit Everything" where
  "ex_diis1 = \<lparr>residualMinimizerParams =
             \<lparr>nIterations = 3, energyDiffThreshold = 0, history = 1,
              vectorExtrapolationMethod = DIIS, mixedVariable = density\<rparr>,
           exCorr_needsKEdensity = False, gInfo_dV = 1, mixFraction_default = 1 / 2,
           initialEnergy = (\<lambda>ev. ev), solveFixedHamiltonian = ex_solve,
           EdensityAndVscloc = (\<lambda>ev. ev),
           diagonalize = (\<lambda>M. (\<lparr>nRows = 1, nCols = 1, elem = (\<lambda>i j. 1)\<rparr>,
                                 (\<lambda>i. elem M 0 0)))\<rparr>"

definition ex_plain1 :: "unit Everything" where
  "ex_plain1 = ex_diis1\<lparr>residualMinimizerParams :=
                 (residualMinimizerParams ex_diis1)\<lparr>vectorExtrapolationMethod := plainMixing\<rparr>\<rparr>"

definition ex_st1 :: "unit scf_state" where
  "ex_st1 = \<lparr>eVars = ex_ev,
     overlap = \<lparr>nRows = 1, nCols = 1, elem = (\<lambda>i j. 0)\<rparr>,
     pastVariables_n = [[[0, 0]]], pastVariables_tau = [],
     pastResiduals = [], Eprev = Some 0, Etot = Some 0, scfLog = [], fieldsFinite = True\<rparr>"

text \<open>DIIS with history depth 2 and four iterations at most, with a solver that adds
  \<open>(1, 0)\<close> to the density, so that every residual is \<open>(1, 0)\<close> and the overlap matrix
  of a full history has the rows \<open>(1, 1)\<close> and \<open>(1, 1)\<close>. \<open>diagonalize\<close> returns its
  eigenvectors \<open>(1, - 1) / sqrt 2\<close> and \<open>(1, 1) / sqrt 2\<close>, eigenvalues 0 and 2, with
  \<open>1 / sqrt 2\<close> rounded to the nearest \<open>double\<close>: the components of the first one sum
  to zero.\<close>

definition ex_add :: "unit ElecVars \<Rightarrow> real \<times> unit ElecVars" where
  "ex_add ev =
    (sum_list (map sum_list (map (\<lambda>x. addD x [1, 0]) (eVars_n ev))),
     ev\<lparr>eVars_n := map (\<lambda>x. addD x [1, 0]) (eVars_n ev)\<rparr>)"

definition ex_zero :: "unit Everything" where
  "ex_zero = \<lparr>residualMinimizerParams =
             \<lparr>nIterations = 4, energyDiffThreshold = 0, history = 2,
              vectorExtrapolationMethod = DIIS, mixedVariable = density\<rparr>,
           exCorr_needsKEdensity = False, gInfo_dV = 1, mixFraction_default = 1 / 2,
           initialEnergy = (\<lambda>ev. ev), solveFixedHamiltonian = ex_add,
           EdensityAndVscloc = (\<lambda>ev. ev),
           diagonalize = (\<lambda>M. (\<lparr>nRows = 2, nCols = 2,
                                  elem = (\<lambda>i j. if i = 1 \<and> j = 0
                                                 then - 6369051672525773 / 9007199254740992
                                                 else 6369051672525773 / 9007199254740992)\<rparr>,
                                 (\<lambda>i. if i = 0 then 0 else 2)))\<rparr>"

section \<open>Plain mixing\<close>

lemma mixPlain_body_frame:
  "eVars_Vtau (mixPlain_body k vn vt pn pt a s ev) = eVars_Vtau ev"
  "eVars_rest (mixPlain_body k vn vt pn pt a s ev) = eVars_rest ev"
  "length (eVars_n (mixPlain_body k vn vt pn pt a s ev)) = length (eVars_n ev)"
  "length (eVars_Vscloc (mixPlain_body k vn vt pn pt a s ev)) = length (eVars_Vscloc ev)"
  "length (eVars_tau (mixPlain_body k vn vt pn pt a s ev)) = length (eVars_tau ev)"
  by (cases vn; cases vt; simp add: mixPlain_body_def Let_def split: option.splits)+


lemma mixPlain_body_other_n:
  "vn' \<noteq> vn \<Longrightarrow> get_n vn' (mixPlain_body k vn vt pn pt a s ev) = get_n vn' ev"
  by (cases vn; cases vn'; cases vt; simp add: mixPlain_body_def Let_def split: option.splits)

lemma mixPlain_body_tau:
  "eVars_tau (mixPlain_body True vn vt pn (Some pt) a s ev) =
     (eVars_tau ev)[s := addD (scaleD a (get_tau vt ev ! s)) (scaleD (1 - a) (pt ! s))]"
  by (cases vn; cases vt; simp add: mixPlain_body_def Let_def)


lemma mixPlain_fold_frame:
  "eVars_Vtau (fold (mixPlain_body k vn vt pn pt a) [0..<m] ev) = eVars_Vtau ev"
  "eVars_rest (fold (mixPlain_body k vn vt pn pt a) [0..<m] ev) = eVars_rest ev"
  "length (eVars_n (fold (mixPlain_body k vn vt pn pt a) [0..<m] ev)) = length (eVars_n ev)"
  "length (eVars_Vscloc (fold (mixPlain_body k vn vt pn pt a) [0..<m] ev)) = length (eVars_Vscloc ev)"
  "length (eVars_tau (fold (mixPlain_body k vn vt pn pt a) [0..<m] ev)) = length (eVars_tau ev)"
  by (induction m; simp add: mixPlain_body_frame)+



lemma mixPlain_fold_other_n:
  "vn' \<noteq> vn \<Longrightarrow> get_n vn' (fold (mixPlain_body k vn vt pn pt a) [0..<m] ev) = get_n vn' ev"
  by (induction m; simp add: mixPlain_body_other_n)


lemma mixPlain_fold_get_tau:
  "s < length (eVars_tau ev) \<Longrightarrow> m \<le> s \<Longrightarrow>
   get_tau vt (fold (mixPlain_body True vn vt pn (Some pt) a) [0..<m] ev) ! s = get_tau vt ev ! s"
proof (induction m)
  case 0 show ?case by simp
next
  case (Suc m)
  then show ?case
    by (cases vt) (simp_all add: mixPlain_body_tau mixPlain_body_frame nth_list_update mixPlain_fold_frame)
qed

lemma mixPlain_fold_tau:
  "s < length (eVars_tau ev) \<Longrightarrow>
   eVars_tau (fold (mixPlain_body True vn vt pn (Some pt) a) [0..<m] ev) ! s =
     (if s < m then addD (scaleD a (get_tau vt ev ! s)) (scaleD (1 - a) (pt ! s)) else eVars_tau ev ! s)"
proof (induction m arbitrary: s)
  case 0 show ?case by simp
next
  case (Suc m)
  show ?case
  proof (cases "s = m")
    case True
    with Suc.prems mixPlain_fold_get_tau[of m ev m vt vn pn pt a] show ?thesis
      by (simp add: mixPlain_body_tau mixPlain_fold_frame)
  next
    case False
    with Suc.prems Suc.IH[of s] show ?thesis
      by (simp add: mixPlain_body_tau mixPlain_fold_frame)
  qed
qed

lemma length_scaleD [simp]: "length (scaleD a x) = length x"
  by (simp add: scaleD_def)

lemma length_addD [simp]: "length (addD x y) = min (length x) (length y)"
  by (simp add: addD_def)

lemma nth_scaleD [simp]: "i < length x \<Longrightarrow> scaleD a x ! i = a * x ! i"
  by (simp add: scaleD_def)

lemma nth_addD [simp]: "i < length x \<Longrightarrow> i < length y \<Longrightarrow> addD x y ! i = x ! i + y ! i"
  by (simp add: addD_def)





text \<open>Claim C10. When the kinetic-energy density is needed, \<open>mixPlain\<close> stores the mixed
  auxiliary field in \<open>e.eVars.tau\<close> whatever \<open>variable_tau\<close> is bound to: the value
  stored at index \<open>s\<close> is read through \<open>variable_tau\<close> (so from \<open>Vtau\<close> when
  potentials are mixed), and \<open>Vtau\<close> is never written. When potentials are mixed the
  member behind \<open>variable_tau\<close> is therefore unchanged while \<open>tau\<close> is overwritten.\<close>

theorem mixPlain_writes_tau:
  assumes "mixPlain True vn vt pn (Some ptv) a ev = Inr ev'"
  shows "eVars_Vtau ev' = eVars_Vtau ev \<and>
     (vt = ref_Vtau \<longrightarrow> get_tau vt ev' = get_tau vt ev) \<and>
     length (eVars_tau ev') = length (eVars_tau ev) \<and>
     (\<forall>s<length (eVars_n ev).
        eVars_tau ev' ! s = addD (scaleD a (get_tau vt ev ! s)) (scaleD (1 - a) (ptv ! s))) \<and>
     (\<forall>s<length (eVars_tau ev). length (eVars_n ev) \<le> s \<longrightarrow> eVars_tau ev' ! s = eVars_tau ev ! s)"
proof -
  let ?sz = "length (eVars_n ev)"
  from assms have rng: "mixPlain_in_range True vn vt pn (Some ptv) ev"
    by (simp add: mixPlain_def split: if_splits)
  with assms have ev': "ev' = fold (mixPlain_body True vn vt pn (Some ptv) a) [0..<?sz] ev"
    by (simp add: mixPlain_def)
  have le: "?sz \<le> length (eVars_tau ev)" if "0 < ?sz"
    using rng that by (simp add: mixPlain_in_range_def Let_def)
  have Vtau: "eVars_Vtau ev' = eVars_Vtau ev"
    unfolding ev' by (rule mixPlain_fold_frame)
  have len: "length (eVars_tau ev') = length (eVars_tau ev)"
    unfolding ev' by (rule mixPlain_fold_frame)
  have wr: "eVars_tau ev' ! s = addD (scaleD a (get_tau vt ev ! s)) (scaleD (1 - a) (ptv ! s))"
    if "s < ?sz" for s
  proof -
    from that have "0 < ?sz" by (cases "eVars_n ev") simp_all
    from le [OF this] that have "s < length (eVars_tau ev)" by simp
    then show ?thesis unfolding ev' using that by (simp add: mixPlain_fold_tau)
  qed
  have keep: "eVars_tau ev' ! s = eVars_tau ev ! s"
    if "s < length (eVars_tau ev)" "?sz \<le> s" for s
    unfolding ev' using that by (simp add: mixPlain_fold_tau)
  show ?thesis
    using Vtau len wr keep by simp
qed

theorem mixPlain_writes_tau_witness:
  "mixPlain True ref_Vscloc ref_Vtau [[1, 1]] (Some [[0, 0]]) (1 / 2) ex_ev
     = Inr (ex_ev\<lparr>eVars_Vscloc := [[2, 5 / 2]], eVars_tau := [[7 / 2, 4]]\<rparr>) \<and>
   eVars_Vtau (ex_ev\<lparr>eVars_Vscloc := [[2, 5 / 2]], eVars_tau := [[7 / 2, 4]]\<rparr>) = [[7, 8]] \<and>
   eVars_tau (ex_ev\<lparr>eVars_Vscloc := [[2, 5 / 2]], eVars_tau := [[7 / 2, 4]]\<rparr>) ! 0
     = addD (scaleD (1 / 2) (get_tau ref_Vtau ex_ev ! 0)) (scaleD (1 - 1 / 2) ([[0, 0]] ! 0))"
proof -
  have run: "mixPlain True ref_Vscloc ref_Vtau [[1, 1]] (Some [[0, 0]]) (1 / 2) ex_ev
     = Inr (ex_ev\<lparr>eVars_Vscloc := [[2, 5 / 2]], eVars_tau := [[7 / 2, 4]]\<rparr>)"
    by (simp add: mixPlain_def mixPlain_in_range_def mixPlain_body_def ex_ev_def
        addD_def scaleD_def)
  from mixPlain_writes_tau [OF run] run show ?thesis
    by (simp add: ex_ev_def)
qed

section \<open>Frame of the mixing routines\<close>

lemma overlapLoop_body_dims [simp]:
  "nRows (overlapLoop_body dV pr ndim j M) = nRows M"
  "nCols (overlapLoop_body dV pr ndim j M) = nCols M"
  by (simp_all add: overlapLoop_body_def matrix_set_def Let_def)

lemma overlapLoop_dims [simp]:
  "nRows (fold (overlapLoop_body dV pr ndim) [0..<k] M) = nRows M"
  "nCols (fold (overlapLoop_body dV pr ndim) [0..<k] M) = nCols M"
  by (induction k) simp_all

lemma cacheResidual_Inr:
  assumes "cacheResidual e vn st = Inr st1"
  shows "pastVariables_n st \<noteq> []"
    and "length (last (pastVariables_n st)) = length (get_n vn (eVars st))"
    and "overlap_in_range (pastResiduals st @ [axpy (- 1) (last (pastVariables_n st)) (get_n vn (eVars st))]) (overlap st)"
    and "st1 = st\<lparr>pastResiduals := pastResiduals st @ [axpy (- 1) (last (pastVariables_n st)) (get_n vn (eVars st))],
                  overlap := fold (overlapLoop_body (gInfo_dV e)
                      (pastResiduals st @ [axpy (- 1) (last (pastVariables_n st)) (get_n vn (eVars st))])
                      (Suc (length (pastResiduals st)))) [0..<Suc (length (pastResiduals st))] (overlap st)\<rparr>"
  using assms
  by (simp_all add: cacheResidual_def Let_def vector_back_def split: if_splits)

lemma cacheResidual_frame:
  assumes "cacheResidual e vn st = Inr st1"
  shows "Etot st1 = Etot st" "Eprev st1 = Eprev st" "scfLog st1 = scfLog st" "eVars st1 = eVars st"
    "pastVariables_n st1 = pastVariables_n st" "pastVariables_tau st1 = pastVariables_tau st"
    "pastResiduals st1 = pastResiduals st @ [axpy (- 1) (last (pastVariables_n st)) (get_n vn (eVars st))]"
    "nRows (overlap st1) = nRows (overlap st)" "nCols (overlap st1) = nCols (overlap st)"
  by (simp_all add: cacheResidual_Inr(4)[OF assms])

lemma extrapolate_frame:
  assumes "extrapolate e vn vt st = Inr r"
  shows "Etot (fst r) = Etot st" "Eprev (fst r) = Eprev st" "scfLog (fst r) = scfLog st"
    "pastVariables_n (fst r) = pastVariables_n st" "pastVariables_tau (fst r) = pastVariables_tau st"
    "pastResiduals (fst r) = pastResiduals st" "overlap (fst r) = overlap st"
  using assms
  by (auto simp add: extrapolate_def Let_def split: if_splits)

lemma mixDIIS_cases:
  assumes "mixDIIS e vn vt st = Inr r"
  obtains st1 ev where "cacheResidual e vn st = Inr st1"
      "length (pastResiduals st1) \<noteq> history (residualMinimizerParams e)"
      "mixPlain (exCorr_needsKEdensity e) vn vt (last (pastVariables_n st))
          (vector_back (pastVariables_tau st)) (mixFraction_default e) (eVars st) = Inr ev"
      "r = (st1\<lparr>eVars := ev\<rparr>, None)"
  | st1 where "cacheResidual e vn st = Inr st1"
      "length (pastResiduals st1) = history (residualMinimizerParams e)"
      "extrapolate e vn vt st1 = Inr r"
proof -
  from assms obtain st1 where c: "cacheResidual e vn st = Inr st1"
    by (auto simp add: mixDIIS_def split: sum.splits)
  note fr = cacheResidual_frame[OF c] cacheResidual_Inr(1)[OF c]
  show ?thesis
  proof (cases "length (pastResiduals st1) = history (residualMinimizerParams e)")
    case True
    with assms c that(2) show ?thesis by (simp add: mixDIIS_def)
  next
    case False
    with assms c fr that(1) show ?thesis
      by (auto simp add: mixDIIS_def vector_back_def split: sum.splits if_splits)
  qed
qed

lemma mixDIIS_frame:
  assumes "mixDIIS e vn vt st = Inr (st', res)"
  shows "Etot st' = Etot st" "Eprev st' = Eprev st" "scfLog st' = scfLog st"
    "pastVariables_n st' = pastVariables_n st" "pastVariables_tau st' = pastVariables_tau st"
    "pastVariables_n st \<noteq> []"
    "pastResiduals st' = pastResiduals st @ [axpy (- 1) (last (pastVariables_n st)) (get_n vn (eVars st))]"
    "nRows (overlap st') = nRows (overlap st)" "nCols (overlap st') = nCols (overlap st)"
  using assms
  by (rule mixDIIS_cases; use extrapolate_frame[of e vn vt _ "(st', res)"] in
      \<open>simp add: cacheResidual_frame cacheResidual_Inr(1)\<close>)+

lemma cacheResidual_finite:
  assumes "cacheResidual e vn st = Inr st1"
  shows "fieldsFinite st1 = fieldsFinite st"
  by (simp add: cacheResidual_Inr(4)[OF assms])

lemma mixStep_Inr:
  assumes "mixStep e st = Inr st'"
  obtains st1 where
    "st' = (if mixedVariable (residualMinimizerParams e) = density
            then st1\<lparr>eVars := EdensityAndVscloc e (eVars st1)\<rparr> else st1)"
    "(vectorExtrapolationMethod (residualMinimizerParams e) = plainMixing \<and>
        pastVariables_n st \<noteq> [] \<and>
        (\<exists>ev. mixPlain (exCorr_needsKEdensity e) (variable_n e) (variable_tau e)
                 (last (pastVariables_n st)) (vector_back (pastVariables_tau st))
                 (mixFraction_default e) (eVars st) = Inr ev \<and> st1 = st\<lparr>eVars := ev\<rparr>)) \<or>
     (vectorExtrapolationMethod (residualMinimizerParams e) = DIIS \<and>
        (\<exists>res. mixDIIS e (variable_n e) (variable_tau e) st = Inr (st1, res))) \<or>
     (vectorExtrapolationMethod (residualMinimizerParams e) = DIIS \<and>
        mixDIIS e (variable_n e) (variable_tau e) st = Inl NonFinite \<and>
        (\<exists>st2. cacheResidual e (variable_n e) st = Inr st2 \<and>
               st1 = st2\<lparr>fieldsFinite := False\<rparr>))"
  using assms
  by (auto simp add: mixStep_def Let_def vector_back_def
      split: VectorExtrapolationMethod.splits option.splits sum.splits if_splits
             scf_error.splits)

lemma mixStep_frame:
  assumes "mixStep e st = Inr st'"
  shows "Etot st' = Etot st" "Eprev st' = Eprev st" "scfLog st' = scfLog st"
    "pastVariables_n st' = pastVariables_n st" "pastVariables_tau st' = pastVariables_tau st"
    "nRows (overlap st') = nRows (overlap st)" "nCols (overlap st') = nCols (overlap st)"
    "pastVariables_n st \<noteq> []"
  using assms
  by (rule mixStep_Inr;
      auto simp add: mixDIIS_frame cacheResidual_frame cacheResidual_Inr(1))+

lemma mixStep_residuals:
  assumes "mixStep e st = Inr st'"
  shows "pastResiduals st' =
    (if vectorExtrapolationMethod (residualMinimizerParams e) = DIIS
     then pastResiduals st @ [axpy (- 1) (last (pastVariables_n st)) (get_n (variable_n e) (eVars st))]
     else pastResiduals st)"
  using assms
  by (rule mixStep_Inr; auto simp add: mixDIIS_frame cacheResidual_frame)

text \<open>A zero sum of coefficients does not end the run: \<open>mixStep\<close> fails only on an index
  out of range or on collections of different sizes.\<close>

lemma mixPlain_not_NonFinite:
  "mixPlain ke vn vt pn pt a ev \<noteq> Inl NonFinite"
  by (simp add: mixPlain_def split: option.splits)

lemma cacheResidual_not_NonFinite:
  "cacheResidual e vn st \<noteq> Inl NonFinite"
  by (simp add: cacheResidual_def Let_def split: option.splits)

lemma mixStep_not_NonFinite:
  "mixStep e st \<noteq> Inl NonFinite"
proof (cases "vectorExtrapolationMethod (residualMinimizerParams e)")
  case plainMixing
  show ?thesis
  proof (cases "vector_back (pastVariables_n st)")
    case None
    with plainMixing show ?thesis by (simp add: mixStep_def)
  next
    case (Some prev_n)
    show ?thesis
    proof (cases "mixPlain (exCorr_needsKEdensity e) (variable_n e) (variable_tau e) prev_n
                    (vector_back (pastVariables_tau st)) (mixFraction_default e) (eVars st)")
      case (Inl err)
      with mixPlain_not_NonFinite[of "exCorr_needsKEdensity e" "variable_n e" "variable_tau e"
             prev_n "vector_back (pastVariables_tau st)" "mixFraction_default e" "eVars st"]
      have "err \<noteq> NonFinite" by auto
      with plainMixing Some Inl show ?thesis by (simp add: mixStep_def)
    next
      case (Inr ev)
      with plainMixing Some show ?thesis by (simp add: mixStep_def)
    qed
  qed
next
  case DIIS
  show ?thesis
  proof (cases "mixDIIS e (variable_n e) (variable_tau e) st")
    case (Inr r)
    with DIIS show ?thesis by (simp add: mixStep_def)
  next
    case (Inl err)
    show ?thesis
    proof (cases err)
      case NonFinite
      show ?thesis
      proof (cases "cacheResidual e (variable_n e) st")
        case c: (Inl err2)
        with cacheResidual_not_NonFinite[of e "variable_n e" st] have "err2 \<noteq> NonFinite" by auto
        with DIIS Inl NonFinite c show ?thesis by (simp add: mixStep_def)
      next
        case c: (Inr st1)
        with DIIS Inl NonFinite show ?thesis by (simp add: mixStep_def)
      qed
    qed (use DIIS Inl in \<open>simp_all add: mixStep_def\<close>)
  qed
qed

section \<open>The outer loop\<close>

declare scfLoop.simps [simp del]


lemma solveStep_simps [simp]:
  "Etot (solveStep e k st) =
     (if fieldsFinite st then Some (fst (solveFixedHamiltonian e (eVars st))) else None)"
  "Eprev (solveStep e k st) = Eprev st"
  "scfLog (solveStep e k st) =
     scfLog st @ [(k, Eprev st,
                   if fieldsFinite st then Some (fst (solveFixedHamiltonian e (eVars st))) else None)]"
  "fieldsFinite (solveStep e k st) = fieldsFinite st"
  "pastVariables_n (solveStep e k st) = pastVariables_n st"
  "pastVariables_tau (solveStep e k st) = pastVariables_tau st"
  "pastResiduals (solveStep e k st) = pastResiduals st"
  "overlap (solveStep e k st) = overlap st"
  "eVars (solveStep e k st) = snd (solveFixedHamiltonian e (eVars st))"
  by (simp_all add: solveStep_def Let_def)

lemma cacheVariables_simps [simp]:
  "Etot (cacheVariables e st) = Etot st"
  "Eprev (cacheVariables e st) = Etot st"
  "scfLog (cacheVariables e st) = scfLog st"
  "fieldsFinite (cacheVariables e st) = fieldsFinite st"
  "pastVariables_n (cacheVariables e st) = pastVariables_n st @ [get_n (variable_n e) (eVars st)]"
  "pastVariables_tau (cacheVariables e st) =
     (if exCorr_needsKEdensity e then pastVariables_tau st @ [get_tau (variable_tau e) (eVars st)]
      else pastVariables_tau st)"
  "pastResiduals (cacheVariables e st) = pastResiduals st"
  "overlap (cacheVariables e st) = overlap st"
  "eVars (cacheVariables e st) = eVars st"
  by (simp_all add: cacheVariables_def)

lemma clearHistory_simps [simp]:
  "Etot (clearHistory e st) = Etot st"
  "Eprev (clearHistory e st) = Eprev st"
  "scfLog (clearHistory e st) = scfLog st"
  "fieldsFinite (clearHistory e st) = fieldsFinite st"
  "overlap (clearHistory e st) = overlap st"
  "eVars (clearHistory e st) = eVars st"
  by (simp_all add: clearHistory_def)

lemma scfLoop_rule:
  assumes inv: "I scfCounter seen st"
    and step: "\<And>k sn s s4. I k sn s \<Longrightarrow> int k < nIterations (residualMinimizerParams e) \<Longrightarrow>
        \<not> energyTest e undetermined k (solveStep e k (cacheVariables e (clearHistory e s))) \<Longrightarrow>
        mixStep e (solveStep e k (cacheVariables e (clearHistory e s))) = Inr s4 \<Longrightarrow>
        I (Suc k) (sn @ [clearHistory e s, cacheVariables e (clearHistory e s),
                          solveStep e k (cacheVariables e (clearHistory e s)), s4]) s4"
    and exhausted: "\<And>k sn s. I k sn s \<Longrightarrow> \<not> int k < nIterations (residualMinimizerParams e) \<Longrightarrow>
        Q \<lparr>final = s, converged = False, iterations = k, failure = None, visited = sn\<rparr>"
    and conv: "\<And>k sn s. I k sn s \<Longrightarrow> int k < nIterations (residualMinimizerParams e) \<Longrightarrow>
        energyTest e undetermined k (solveStep e k (cacheVariables e (clearHistory e s))) \<Longrightarrow>
        Q \<lparr>final = solveStep e k (cacheVariables e (clearHistory e s)), converged = True,
           iterations = Suc k, failure = None,
           visited = sn @ [clearHistory e s, cacheVariables e (clearHistory e s),
                           solveStep e k (cacheVariables e (clearHistory e s))]\<rparr>"
    and failed: "\<And>k sn s err. I k sn s \<Longrightarrow> int k < nIterations (residualMinimizerParams e) \<Longrightarrow>
        \<not> energyTest e undetermined k (solveStep e k (cacheVariables e (clearHistory e s))) \<Longrightarrow>
        mixStep e (solveStep e k (cacheVariables e (clearHistory e s))) = Inl err \<Longrightarrow>
        Q \<lparr>final = solveStep e k (cacheVariables e (clearHistory e s)), converged = False,
           iterations = Suc k, failure = Some err,
           visited = sn @ [clearHistory e s, cacheVariables e (clearHistory e s),
                           solveStep e k (cacheVariables e (clearHistory e s))]\<rparr>"
  shows "Q (scfLoop e undetermined scfCounter seen st)"
  using assms
proof (induction e undetermined scfCounter seen st rule: scfLoop.induct)
  case (1 e undetermined scfCounter seen st)
  note I = "1.prems"(1) and step = "1.prems"(2) and exhausted = "1.prems"(3)
    and conv = "1.prems"(4) and failed = "1.prems"(5)
  show ?case
  proof (cases "int scfCounter < nIterations (residualMinimizerParams e)")
    case False
    with exhausted[OF I] show ?thesis by (simp add: scfLoop.simps[of e undetermined scfCounter])
  next
    case True
    let ?st3 = "solveStep e scfCounter (cacheVariables e (clearHistory e st))"
    show ?thesis
    proof (cases "energyTest e undetermined scfCounter ?st3")
      case c: True
      from conv[OF I True c] True c show ?thesis
        by (simp add: scfLoop.simps[of e undetermined scfCounter] Let_def)
    next
      case c: False
      show ?thesis
      proof (cases "mixStep e ?st3")
        case (Inl err)
        from failed[OF I True c Inl] True c Inl show ?thesis
          by (simp add: scfLoop.simps[of e undetermined scfCounter] Let_def)
      next
        case (Inr st4)
        have "Q (scfLoop e undetermined (Suc scfCounter)
                 (seen @ [clearHistory e st, cacheVariables e (clearHistory e st), ?st3, st4]) st4)"
          by (rule "1.IH"[OF True refl refl refl c Inr step[OF I True c Inr] step exhausted conv failed])
        with True c Inr show ?thesis
          by (simp add: scfLoop.simps[of e undetermined scfCounter] Let_def)
      qed
    qed
  qed
qed

lemmas ex_run_defs = minimize_def scfLoop.simps energyTest_def ex_e_def ex_ev_def ex_solve_def
       clearHistory_def cacheVariables_def solveStep_def mixStep_def mixPlain_def
       mixPlain_in_range_def mixPlain_body_def vector_back_def variable_n_def variable_tau_def
       scaleD_def addD_def Let_def

text \<open>Claim C9. With an iteration cap of at least 1 the loop body is executed at most
  \<open>nIterations\<close> times. The number of passes reported is the number of passes made:
  the lines logged by line 87, one per pass and after each run of the inner solver,
  carry the counters \<open>0, ..., iterations - 1\<close>. A division by a zero sum in line 177
  does not end the run; a run that neither converged nor ran out of the range of an
  index made exactly \<open>nIterations\<close> passes and then stopped. With a cap of 1 and a
  test of line 90 that fails in the first pass (an energy change of at least the
  threshold), the run makes exactly one pass, for which it logs the one line with the
  counter 0, no previous energy and the energy of the inner solver on the initial
  state, and ends unconverged.\<close>

theorem scf_iteration_cap:
  fixes e :: "'x Everything"
  assumes "1 \<le> nIterations (residualMinimizerParams e)"
  shows "int (iterations (minimize e ev undetermined ov)) \<le> nIterations (residualMinimizerParams e) \<and>
    map fst (scfLog (final (minimize e ev undetermined ov)))
      = [0..<iterations (minimize e ev undetermined ov)] \<and>
    failure (minimize e ev undetermined ov) \<noteq> Some NonFinite \<and>
    (\<not> converged (minimize e ev undetermined ov) \<and> failure (minimize e ev undetermined ov) = None
       \<longrightarrow> int (iterations (minimize e ev undetermined ov)) = nIterations (residualMinimizerParams e)) \<and>
    (nIterations (residualMinimizerParams e) = 1 \<and> \<not> undetermined 0
       \<longrightarrow> iterations (minimize e ev undetermined ov) = 1 \<and>
           \<not> converged (minimize e ev undetermined ov) \<and>
           scfLog (final (minimize e ev undetermined ov))
             = [(0, None, Some (fst (solveFixedHamiltonian e (initialEnergy e ev))))])"
proof -
  let ?N = "nIterations (residualMinimizerParams e)"
  let ?st0 = "\<lparr>eVars = initialEnergy e ev,
       overlap = \<lparr>nRows = history (residualMinimizerParams e),
                  nCols = history (residualMinimizerParams e), elem = ov\<rparr>,
       pastVariables_n = [], pastVariables_tau = [], pastResiduals = [],
       Eprev = Some 0, Etot = None, scfLog = [], fieldsFinite = True\<rparr>"
  let ?r = "scfLoop e undetermined 0 [] ?st0"
  let ?I = "\<lambda>k (sn :: 'x scf_state list) (s :: 'x scf_state).
       int k \<le> ?N \<and> map fst (scfLog s) = [0..<k]"
  let ?Q = "\<lambda>r :: 'x scf_run. int (iterations r) \<le> ?N \<and>
       map fst (scfLog (final r)) = [0..<iterations r] \<and>
       failure r \<noteq> Some NonFinite \<and>
       (\<not> converged r \<and> failure r = None \<longrightarrow> int (iterations r) = ?N)"
  have m: "minimize e ev undetermined ov = ?r"
    by (simp add: minimize_def)
  have cap: "?Q ?r"
  proof (rule scfLoop_rule[where I = ?I and Q = ?Q])
    show "?I 0 [] ?st0" using assms by simp
  next
    fix k sn s s4
    assume I: "?I k sn s" and lt: "int k < ?N"
      and mix: "mixStep e (solveStep e k (cacheVariables e (clearHistory e s))) = Inr s4"
    from I lt show "?I (Suc k) (sn @ [clearHistory e s, cacheVariables e (clearHistory e s),
                          solveStep e k (cacheVariables e (clearHistory e s)), s4]) s4"
      by (simp add: mixStep_frame[OF mix])
  next
    fix k sn s
    assume "?I k sn s" "\<not> int k < ?N"
    then show "?Q \<lparr>final = s, converged = False, iterations = k, failure = None, visited = sn\<rparr>"
      by simp
  next
    fix k sn s
    assume "?I k sn s" "int k < ?N"
    then show "?Q \<lparr>final = solveStep e k (cacheVariables e (clearHistory e s)), converged = True,
           iterations = Suc k, failure = None,
           visited = sn @ [clearHistory e s, cacheVariables e (clearHistory e s),
                           solveStep e k (cacheVariables e (clearHistory e s))]\<rparr>"
      by simp
  next
    fix k sn s err
    assume "?I k sn s" "int k < ?N"
      and "mixStep e (solveStep e k (cacheVariables e (clearHistory e s))) = Inl err"
    with mixStep_not_NonFinite[of e "solveStep e k (cacheVariables e (clearHistory e s))"]
    show "?Q \<lparr>final = solveStep e k (cacheVariables e (clearHistory e s)), converged = False,
           iterations = Suc k, failure = Some err,
           visited = sn @ [clearHistory e s, cacheVariables e (clearHistory e s),
                           solveStep e k (cacheVariables e (clearHistory e s))]\<rparr>"
      by auto
  qed
  have one: "iterations ?r = 1 \<and> \<not> converged ?r \<and>
      scfLog (final ?r) = [(0, None, Some (fst (solveFixedHamiltonian e (initialEnergy e ev))))]"
    if "?N = 1" "\<not> undetermined 0"
  proof -
    have stop: "scfLoop e undetermined (Suc 0) sn s =
        \<lparr>final = s, converged = False, iterations = Suc 0, failure = None, visited = sn\<rparr>" for sn s
      using that(1) by (simp add: scfLoop.simps[of e undetermined "Suc 0"])
    let ?st3 = "solveStep e 0 (cacheVariables e (clearHistory e ?st0))"
    have t: "\<not> energyTest e undetermined 0 ?st3"
      using that(2) by (simp add: energyTest_def)
    have l: "scfLog ?st3 = [(0, None, Some (fst (solveFixedHamiltonian e (initialEnergy e ev))))]"
      by simp
    show ?thesis
    proof (cases "mixStep e ?st3")
      case (Inl err)
      with that(1) t l show ?thesis
        by (simp add: scfLoop.simps[of e undetermined 0] Let_def)
    next
      case (Inr st4)
      with that(1) t l mixStep_frame(3)[OF Inr] show ?thesis
        by (simp add: scfLoop.simps[of e undetermined 0] stop Let_def)
    qed
  qed
  show ?thesis
    unfolding m using cap one by simp
qed

theorem scf_iteration_cap_witness:
  "1 \<le> nIterations (residualMinimizerParams ex_e1) \<and>
   nIterations (residualMinimizerParams ex_e1) = 1 \<and> \<not> (\<lambda>k. False) (0 :: nat) \<and>
   iterations (minimize ex_e1 ex_ev (\<lambda>k. False) (\<lambda>i j. 0)) = 1 \<and>
   \<not> converged (minimize ex_e1 ex_ev (\<lambda>k. False) (\<lambda>i j. 0)) \<and>
   scfLog (final (minimize ex_e1 ex_ev (\<lambda>k. False) (\<lambda>i j. 0))) = [(0, None, Some (3 / 2))] \<and>
   1 \<le> nIterations (residualMinimizerParams ex_zero) \<and>
   \<not> fieldsFinite (final (minimize ex_zero ex_ev (\<lambda>k. False) (\<lambda>i j. 0))) \<and>
   \<not> converged (minimize ex_zero ex_ev (\<lambda>k. False) (\<lambda>i j. 0)) \<and>
   failure (minimize ex_zero ex_ev (\<lambda>k. False) (\<lambda>i j. 0)) = None \<and>
   int (iterations (minimize ex_zero ex_ev (\<lambda>k. False) (\<lambda>i j. 0)))
     = nIterations (residualMinimizerParams ex_zero) \<and>
   map fst (scfLog (final (minimize ex_zero ex_ev (\<lambda>k. False) (\<lambda>i j. 0)))) = [0, 1, 2, 3]"
proof -
  have N1: "1 \<le> nIterations (residualMinimizerParams ex_e1)"
    "nIterations (residualMinimizerParams ex_e1) = 1"
    "fst (solveFixedHamiltonian ex_e1 (initialEnergy ex_e1 ex_ev)) = 3 / 2"
    by (simp_all add: ex_e1_def ex_e_def ex_ev_def ex_solve_def scaleD_def)
  have N4: "1 \<le> nIterations (residualMinimizerParams ex_zero)"
    "nIterations (residualMinimizerParams ex_zero) = 4"
    by (simp_all add: ex_zero_def)
  have run: "\<not> fieldsFinite (final (minimize ex_zero ex_ev (\<lambda>k. False) (\<lambda>i j. 0)))"
    "\<not> converged (minimize ex_zero ex_ev (\<lambda>k. False) (\<lambda>i j. 0))"
    "failure (minimize ex_zero ex_ev (\<lambda>k. False) (\<lambda>i j. 0)) = None"
    by code_simp+
  have u: "[0..<4] = [0, Suc 0, 2, 3]"
    by code_simp
  from scf_iteration_cap [OF N1(1), of ex_ev "\<lambda>k. False" "\<lambda>i j. 0"]
       scf_iteration_cap [OF N4(1), of ex_ev "\<lambda>k. False" "\<lambda>i j. 0"] N1 N4 run
  show ?thesis
    by (simp add: u)
qed

text \<open>Claim C1 fails on the code. Line 54 declares \<open>E\<close> without an initialiser and line 68
  copies it to \<open>Eprev\<close> in the first pass. With plain mixing, one iteration at most,
  threshold 1 and the density \<open>(1, 2)\<close>, the one line logged has no previous energy, and
  the test of line 90 is made on it: the run reports convergence in pass 0 exactly
  when that test, whose outcome the program does not determine, succeeds. Nothing
  treats the first energy change as infinite.\<close>

theorem scf_first_pass_reads_uninitialised_energy:
  "scfLog (final (minimize ex_e1 ex_ev undetermined ov)) = [(0, None, Some (3 / 2))] \<and>
   iterations (minimize ex_e1 ex_ev undetermined ov) = 1 \<and>
   converged (minimize ex_e1 ex_ev undetermined ov) = undetermined 0"
proof (cases "undetermined 0")
  case True
  then show ?thesis
    by (simp add: ex_e1_def ex_run_defs)
next
  case False
  then show ?thesis
    by (simp add: ex_e1_def ex_run_defs)
qed

section \<open>The history buffers\<close>

lemma clearHistory_histories:
  "pastVariables_n (clearHistory e st) =
     (if history (residualMinimizerParams e) \<le> length (pastResiduals st) \<or>
         history (residualMinimizerParams e) \<le> length (pastVariables_n st)
      then [] else pastVariables_n st)"
  "pastVariables_tau (clearHistory e st) =
     (if (history (residualMinimizerParams e) \<le> length (pastResiduals st) \<or>
         history (residualMinimizerParams e) \<le> length (pastVariables_n st)) \<and> exCorr_needsKEdensity e
      then [] else pastVariables_tau st)"
  "pastResiduals (clearHistory e st) =
     (if (history (residualMinimizerParams e) \<le> length (pastResiduals st) \<or>
         history (residualMinimizerParams e) \<le> length (pastVariables_n st)) \<and>
         vectorExtrapolationMethod (residualMinimizerParams e) = DIIS
      then [] else pastResiduals st)"
  by (simp_all add: clearHistory_def)

lemma history_pass:
  fixes e :: "'x Everything"
  assumes H: "1 \<le> history (residualMinimizerParams e)"
    and b: "history_bounded (history (residualMinimizerParams e)) st"
    and l: "history_lockstep e st"
  shows "history_bounded (history (residualMinimizerParams e)) (clearHistory e st)"
    and "history_bounded (history (residualMinimizerParams e)) (cacheVariables e (clearHistory e st))"
    and "history_bounded (history (residualMinimizerParams e))
           (solveStep e k (cacheVariables e (clearHistory e st)))"
    and "mixStep e (solveStep e k (cacheVariables e (clearHistory e st))) = Inr st4 \<Longrightarrow>
           history_bounded (history (residualMinimizerParams e)) st4 \<and> history_lockstep e st4"
proof -
  show "history_bounded (history (residualMinimizerParams e)) (clearHistory e st)"
    using b by (simp add: history_bounded_def clearHistory_histories)
  show "history_bounded (history (residualMinimizerParams e)) (cacheVariables e (clearHistory e st))"
    using H b l by (auto simp add: history_bounded_def history_lockstep_def clearHistory_histories split: if_splits)
  show "history_bounded (history (residualMinimizerParams e))
           (solveStep e k (cacheVariables e (clearHistory e st)))"
    using H b l by (auto simp add: history_bounded_def history_lockstep_def clearHistory_histories split: if_splits)
  show "history_bounded (history (residualMinimizerParams e)) st4 \<and> history_lockstep e st4"
    if m: "mixStep e (solveStep e k (cacheVariables e (clearHistory e st))) = Inr st4"
    using H b l
    by (auto simp add: history_bounded_def history_lockstep_def clearHistory_histories
          mixStep_frame[OF m] mixStep_residuals[OF m] split: if_splits)
qed

text \<open>Claim C4. With a history depth of at least 1, no history buffer (snapshots,
  auxiliary snapshots, residuals) holds more than \<open>history\<close> entries at any program point
  of a run. When one of the tests of line 60 finds a buffer full, the buffers in use are
  emptied as a whole, so that the append that follows leaves exactly the new entry: the
  snapshot of line 69 (and of line 70), and the residual appended by \<open>mixDIIS\<close>. The
  bound also holds for the state in which line 131 has appended the residual, whatever
  the rest of \<open>mixDIIS\<close> does with it.\<close>

theorem history_depth_invariant:
  fixes e :: "'x Everything"
  assumes H: "1 \<le> history (residualMinimizerParams e)"
  shows "list_all (history_bounded (history (residualMinimizerParams e)))
           (visited (minimize e ev undetermined ov)) \<and>
         history_bounded (history (residualMinimizerParams e)) (final (minimize e ev undetermined ov)) \<and>
         (\<forall>st k st4.
            history (residualMinimizerParams e) \<le> length (pastResiduals st) \<or>
            history (residualMinimizerParams e) \<le> length (pastVariables_n st) \<longrightarrow>
              pastVariables_n (clearHistory e st) = [] \<and>
              pastVariables_n (cacheVariables e (clearHistory e st))
                = [get_n (variable_n e) (eVars st)] \<and>
              (exCorr_needsKEdensity e \<longrightarrow>
                 pastVariables_tau (clearHistory e st) = [] \<and>
                 pastVariables_tau (cacheVariables e (clearHistory e st))
                   = [get_tau (variable_tau e) (eVars st)]) \<and>
              (vectorExtrapolationMethod (residualMinimizerParams e) = DIIS \<longrightarrow>
                 pastResiduals (clearHistory e st) = [] \<and>
                 (mixStep e (solveStep e k (cacheVariables e (clearHistory e st))) = Inr st4 \<longrightarrow>
                    pastResiduals st4
                      = [axpy (- 1) (get_n (variable_n e) (eVars st))
                           (get_n (variable_n e)
                              (eVars (solveStep e k (cacheVariables e (clearHistory e st)))))]))) \<and>
         (\<forall>st k st1.
            history_bounded (history (residualMinimizerParams e)) st \<and> history_lockstep e st \<and>
            vectorExtrapolationMethod (residualMinimizerParams e) = DIIS \<and>
            cacheResidual e (variable_n e) (solveStep e k (cacheVariables e (clearHistory e st)))
              = Inr st1 \<longrightarrow>
              history_bounded (history (residualMinimizerParams e)) st1 \<and> history_lockstep e st1)"
proof -
  let ?H = "history (residualMinimizerParams e)"
  let ?st0 = "\<lparr>eVars = initialEnergy e ev,
       overlap = \<lparr>nRows = history (residualMinimizerParams e),
                  nCols = history (residualMinimizerParams e), elem = ov\<rparr>,
       pastVariables_n = [], pastVariables_tau = [], pastResiduals = [],
       Eprev = Some 0, Etot = None, scfLog = [], fieldsFinite = True\<rparr>"
  let ?I = "\<lambda>(k :: nat) (sn :: 'x scf_state list) (s :: 'x scf_state).
       list_all (history_bounded ?H) sn \<and> history_bounded ?H s \<and> history_lockstep e s"
  let ?Q = "\<lambda>r :: 'x scf_run. list_all (history_bounded ?H) (visited r) \<and>
       history_bounded ?H (final r)"
  have run: "?Q (scfLoop e undetermined 0 [] ?st0)"
  proof (rule scfLoop_rule[where I = ?I and Q = ?Q])
    show "?I 0 [] ?st0" by (simp add: history_bounded_def history_lockstep_def)
  next
    fix k sn s s4
    assume I: "?I k sn s"
      and mix: "mixStep e (solveStep e k (cacheVariables e (clearHistory e s))) = Inr s4"
    from I have b: "history_bounded ?H s" and l: "history_lockstep e s" by simp_all
    from I history_pass(1-3)[OF H b l] history_pass(4)[OF H b l mix]
    show "?I (Suc k) (sn @ [clearHistory e s, cacheVariables e (clearHistory e s),
                          solveStep e k (cacheVariables e (clearHistory e s)), s4]) s4"
      by simp
  next
    fix k sn s
    assume "?I k sn s"
    then show "?Q \<lparr>final = s, converged = False, iterations = k, failure = None, visited = sn\<rparr>"
      by simp
  next
    fix k sn s
    assume I: "?I k sn s"
    from I have b: "history_bounded ?H s" and l: "history_lockstep e s" by simp_all
    from I history_pass(1-3)[OF H b l]
    show "?Q \<lparr>final = solveStep e k (cacheVariables e (clearHistory e s)), converged = True,
           iterations = Suc k, failure = None,
           visited = sn @ [clearHistory e s, cacheVariables e (clearHistory e s),
                           solveStep e k (cacheVariables e (clearHistory e s))]\<rparr>"
      by simp
  next
    fix k sn s err
    assume I: "?I k sn s"
    from I have b: "history_bounded ?H s" and l: "history_lockstep e s" by simp_all
    from I history_pass(1-3)[OF H b l]
    show "?Q \<lparr>final = solveStep e k (cacheVariables e (clearHistory e s)), converged = False,
           iterations = Suc k, failure = Some err,
           visited = sn @ [clearHistory e s, cacheVariables e (clearHistory e s),
                           solveStep e k (cacheVariables e (clearHistory e s))]\<rparr>"
      by simp
  qed
  have reset: "pastResiduals st4
                      = [axpy (- 1) (get_n (variable_n e) (eVars st))
                           (get_n (variable_n e)
                              (eVars (solveStep e k (cacheVariables e (clearHistory e st)))))]"
    if full: "?H \<le> length (pastResiduals st) \<or> ?H \<le> length (pastVariables_n st)"
      and d: "vectorExtrapolationMethod (residualMinimizerParams e) = DIIS"
      and m: "mixStep e (solveStep e k (cacheVariables e (clearHistory e st))) = Inr st4"
    for st :: "'x scf_state" and k st4
    using full d by (simp add: mixStep_residuals[OF m] clearHistory_histories)
  have mid: "history_bounded ?H st1 \<and> history_lockstep e st1"
    if b: "history_bounded ?H st" and l: "history_lockstep e st"
      and d: "vectorExtrapolationMethod (residualMinimizerParams e) = DIIS"
      and c: "cacheResidual e (variable_n e) (solveStep e k (cacheVariables e (clearHistory e st)))
                = Inr st1"
    for st :: "'x scf_state" and k st1
    using H b l d
    by (auto simp add: history_bounded_def history_lockstep_def clearHistory_histories
          cacheResidual_frame[OF c] split: if_splits)
  show ?thesis
    using run reset by (simp add: minimize_def clearHistory_histories) (use mid in blast)
qed

theorem history_depth_invariant_witness:
  "1 \<le> history (residualMinimizerParams ex_e0) \<and>
   list_all (history_bounded (history (residualMinimizerParams ex_e0)))
     (visited (minimize ex_e0 ex_ev (\<lambda>k. False) (\<lambda>i j. 0))) \<and>
   map (\<lambda>st. length (pastVariables_n st)) (visited (minimize ex_e0 ex_ev (\<lambda>k. False) (\<lambda>i j. 0)))
     = [0, 1, 1, 1, 1, 2, 2, 2, 0, 1, 1, 1]"
proof -
  have H: "1 \<le> history (residualMinimizerParams ex_e0)"
    by (simp add: ex_e0_def ex_e_def)
  have run: "map (\<lambda>st. length (pastVariables_n st)) (visited (minimize ex_e0 ex_ev (\<lambda>k. False) (\<lambda>i j. 0)))
     = [0, 1, 1, 1, 1, 2, 2, 2, 0, 1, 1, 1]"
    by code_simp
  from history_depth_invariant [OF H, of ex_ev "\<lambda>k. False" "\<lambda>i j. 0"] H run show ?thesis
    by simp
qed

section \<open>The overlap matrix\<close>

lemma elem_matrix_set [simp]:
  "elem (matrix_set i j m M) a b = (if a = i \<and> b = j then m else elem M a b)"
  by (simp add: matrix_set_def)

lemma overlapLoop_elem:
  assumes "k \<le> ndim" "0 < ndim"
  shows "elem (fold (overlapLoop_body dV pr ndim) [0..<k] M) i j =
     (if j = ndim - 1 \<and> i < k then overlapResiduals dV (pr ! i) (last pr)
      else if i = ndim - 1 \<and> j < k then overlapResiduals dV (pr ! j) (last pr)
      else elem M i j)"
  using assms
proof (induction k)
  case 0
  show ?case by simp
next
  case (Suc k)
  then show ?case
    by (auto simp add: overlapLoop_body_def Let_def)
qed

lemma integral_mulD_commute: "integral dV (mulD x y) = integral dV (mulD y x)"
proof -
  have "map2 (*) x y = map2 (*) y x" for x y :: "real list"
    by (induction x y rule: list_induct2') (simp_all add: mult.commute)
  then show ?thesis by (simp add: integral_def mulD_def)
qed

lemma integral_mulD_self: "0 \<le> dV \<Longrightarrow> 0 \<le> integral dV (mulD x x)"
proof -
  have "0 \<le> sum_list (map2 (*) x x)"
    by (rule sum_list_nonneg) (auto simp add: set_zip)
  then show "0 \<le> dV \<Longrightarrow> 0 \<le> integral dV (mulD x x)"
    by (simp add: integral_def mulD_def)
qed

lemma inner_product_commute: "inner_product dV r1 r2 = inner_product dV r2 r1"
proof -
  have "map2 (\<lambda>x y. integral dV (mulD x y)) r1 r2 = map2 (\<lambda>x y. integral dV (mulD x y)) r2 r1"
    by (induction r1 r2 rule: list_induct2') (simp_all add: integral_mulD_commute)
  then show ?thesis by (simp add: inner_product_def)
qed

lemma inner_product_self: "0 \<le> dV \<Longrightarrow> 0 \<le> inner_product dV r r"
  unfolding inner_product_def
  by (rule sum_list_nonneg) (auto simp add: set_zip integral_mulD_self)

lemma overlapResiduals_inner_product:
  assumes "length r1 = length r2" "length r1 = 1 \<or> length r1 = 2"
  shows "overlapResiduals dV r1 r2 = inner_product dV r1 r2"
proof -
  from assms consider (one) x y where "r1 = [x]" "r2 = [y]"
    | (two) x x' y y' where "r1 = [x, x']" "r2 = [y, y']"
    by (cases r1; cases r2; cases "tl r1"; cases "tl r2"; auto)
  then show ?thesis
    by cases (simp_all add: overlapResiduals_def inner_product_def)
qed

text \<open>Claim C7. Let the block of the overlap matrix over the residuals in the history
  hold their inner products, let the volume element be non-negative and let every
  residual have the one or two fields of the variable. After lines 128-141 of \<open>mixDIIS\<close>
  the block over the residuals, now one more, is symmetric and holds at \<open>(i, j)\<close> the
  inner product of residuals \<open>i\<close> and \<open>j\<close>; a diagonal entry is the inner product of
  a residual with itself and is not negative; every entry outside the newest row and
  column is the one from before; and \<open>mixDIIS\<close> returns this matrix.\<close>

theorem overlap_incremental_update:
  fixes e :: "'x Everything"
  assumes dV: "0 \<le> gInfo_dV e"
    and c: "cacheResidual e vn st = Inr st1"
    and fields: "length (get_n vn (eVars st)) = 1 \<or> length (get_n vn (eVars st)) = 2"
    and shape: "\<forall>r\<in>set (pastResiduals st). length r = length (get_n vn (eVars st))"
    and valid: "\<forall>i<length (pastResiduals st). \<forall>j<length (pastResiduals st).
        elem (overlap st) i j = inner_product (gInfo_dV e) (pastResiduals st ! i) (pastResiduals st ! j)"
  shows "length (pastResiduals st1) = Suc (length (pastResiduals st)) \<and>
    (\<forall>i<length (pastResiduals st1). \<forall>j<length (pastResiduals st1).
        elem (overlap st1) i j
          = inner_product (gInfo_dV e) (pastResiduals st1 ! i) (pastResiduals st1 ! j) \<and>
        elem (overlap st1) i j = elem (overlap st1) j i) \<and>
    (\<forall>i<length (pastResiduals st1).
        elem (overlap st1) i i
          = inner_product (gInfo_dV e) (pastResiduals st1 ! i) (pastResiduals st1 ! i) \<and>
        0 \<le> elem (overlap st1) i i) \<and>
    (\<forall>i j. i \<noteq> length (pastResiduals st) \<and> j \<noteq> length (pastResiduals st)
        \<longrightarrow> elem (overlap st1) i j = elem (overlap st) i j) \<and>
    (\<forall>vt st' res. mixDIIS e vn vt st = Inr (st', res)
        \<longrightarrow> overlap st' = overlap st1 \<and> pastResiduals st' = pastResiduals st1)"
proof -
  let ?dV = "gInfo_dV e"
  let ?n = "length (pastResiduals st)"
  let ?new = "axpy (- 1) (last (pastVariables_n st)) (get_n vn (eVars st))"
  let ?pr = "pastResiduals st @ [?new]"
  note st1 = cacheResidual_Inr(4)[OF c]
  have pr1: "pastResiduals st1 = ?pr" by (simp add: st1)
  have len_new: "length ?new = length (get_n vn (eVars st))"
    using cacheResidual_Inr(2)[OF c] by (simp add: axpy_def)
  have len: "length (?pr ! i) = length (get_n vn (eVars st))" if "i < Suc ?n" for i
    using that shape len_new by (cases "i < ?n") (simp_all add: nth_append less_Suc_eq)
  have ov: "elem (overlap st1) i j =
     (if j = ?n \<and> i < Suc ?n then overlapResiduals ?dV (?pr ! i) ?new
      else if i = ?n \<and> j < Suc ?n then overlapResiduals ?dV (?pr ! j) ?new
      else elem (overlap st) i j)" for i j
    using overlapLoop_elem[of "Suc ?n" "Suc ?n" ?dV ?pr "overlap st" i j] by (simp add: st1)
  have ip: "overlapResiduals ?dV (?pr ! i) ?new = inner_product ?dV (?pr ! i) (?pr ! ?n)"
    if "i < Suc ?n" for i
    using len[OF that] len_new fields by (simp add: overlapResiduals_inner_product)
  have entry: "elem (overlap st1) i j = inner_product ?dV (?pr ! i) (?pr ! j)"
    if "i < Suc ?n" "j < Suc ?n" for i j
  proof (cases "j = ?n")
    case True
    with that show ?thesis by (simp add: ov ip)
  next
    case j: False
    show ?thesis
    proof (cases "i = ?n")
      case True
      with j that have "elem (overlap st1) i j = inner_product ?dV (?pr ! j) (?pr ! ?n)"
        by (simp add: ov ip)
      with True show ?thesis by (simp add: inner_product_commute)
    next
      case False
      with j that have "i < ?n" "j < ?n" by simp_all
      with valid show ?thesis by (simp add: ov nth_append)
    qed
  qed
  have sym: "elem (overlap st1) i j = elem (overlap st1) j i" if "i < Suc ?n" "j < Suc ?n" for i j
    using entry[OF that] entry[OF that(2) that(1)] by (simp add: inner_product_commute)
  have keep: "elem (overlap st1) i j = elem (overlap st) i j" if "i \<noteq> ?n" "j \<noteq> ?n" for i j
    using that by (simp add: ov)
  have ret: "overlap st' = overlap st1 \<and> pastResiduals st' = pastResiduals st1"
    if m: "mixDIIS e vn vt st = Inr (st', res)" for vt st' res
    using m
  proof (rule mixDIIS_cases)
    fix s1 ev
    assume "cacheResidual e vn st = Inr s1" "(st', res) = (s1\<lparr>eVars := ev\<rparr>, None)"
    with c show ?thesis by simp
  next
    fix s1
    assume "cacheResidual e vn st = Inr s1" "extrapolate e vn vt s1 = Inr (st', res)"
    with c extrapolate_frame[of e vn vt s1 "(st', res)"] show ?thesis by simp
  qed
  show ?thesis
    using entry sym keep ret dV by (simp add: pr1 inner_product_self)
qed

lemma ex_cacheResidual: "\<exists>st1. cacheResidual ex_diis ref_n ex_st = Inr st1"
  by (simp add: cacheResidual_def vector_back_def ex_st_def ex_ev_def ex_diis_def axpy_def
      addD_def scaleD_def overlap_in_range_def overlapResiduals_in_range_def Let_def)

theorem overlap_incremental_update_witness:
  "0 \<le> gInfo_dV ex_diis \<and>
   (\<exists>st1. cacheResidual ex_diis ref_n ex_st = Inr st1 \<and>
      pastResiduals st1 = [[[2, - 1]], [[- 1, 2]]] \<and>
      elem (overlap st1) 0 0 = 5 \<and> elem (overlap st1) 0 1 = - 4 \<and>
      elem (overlap st1) 1 0 = - 4 \<and> elem (overlap st1) 1 1 = 5)"
proof -
  from ex_cacheResidual obtain st1 where c: "cacheResidual ex_diis ref_n ex_st = Inr st1" ..
  have pr: "pastResiduals st1 = [[[2, - 1]], [[- 1, 2]]]"
    by (simp add: cacheResidual_frame(7)[OF c] ex_st_def ex_ev_def axpy_def addD_def scaleD_def)
  have dV: "0 \<le> gInfo_dV ex_diis" by (simp add: ex_diis_def)
  have fields: "length (get_n ref_n (eVars ex_st)) = 1 \<or> length (get_n ref_n (eVars ex_st)) = 2"
    by (simp add: ex_st_def ex_ev_def)
  have shape: "\<forall>r\<in>set (pastResiduals ex_st). length r = length (get_n ref_n (eVars ex_st))"
    by (simp add: ex_st_def ex_ev_def)
  have valid: "\<forall>i<length (pastResiduals ex_st). \<forall>j<length (pastResiduals ex_st).
        elem (overlap ex_st) i j
          = inner_product (gInfo_dV ex_diis) (pastResiduals ex_st ! i) (pastResiduals ex_st ! j)"
    by (simp add: ex_st_def ex_diis_def inner_product_def integral_def mulD_def)
  from overlap_incremental_update [OF dV c fields shape valid]
  have "\<forall>i<Suc (Suc 0). \<forall>j<Suc (Suc 0). elem (overlap st1) i j
          = inner_product 1 ([[[2, - 1]], [[- 1, 2]]] ! i) ([[[2, - 1]], [[- 1, 2]]] ! j)"
    by (simp add: pr ex_diis_def)
  then have "elem (overlap st1) 0 0 = 5 \<and> elem (overlap st1) 0 1 = - 4 \<and>
      elem (overlap st1) 1 0 = - 4 \<and> elem (overlap st1) 1 1 = 5"
    by (simp add: inner_product_def integral_def mulD_def All_less_Suc)
  with dV c pr show ?thesis by blast
qed

section \<open>mixDIIS with a history that is not full\<close>

lemma cacheResidual_diagonalize [simp]:
  "cacheResidual (e\<lparr>diagonalize := d\<rparr>) vn st = cacheResidual e vn st"
  by (simp add: cacheResidual_def Let_def split: option.split)

text \<open>Claim C6. When the number of residuals, counted with the one just appended, is
  below the history depth, \<open>mixDIIS\<close> is lines 128-141 followed by \<open>mixPlain\<close> on the
  current variable and the most recent snapshot: no combined residual is formed, and the
  result is the same whatever \<open>diagonalize\<close> would return.\<close>

theorem mixDIIS_short_history_is_plain:
  fixes e :: "'x Everything"
  assumes "Suc (length (pastResiduals st)) < history (residualMinimizerParams e)"
  shows "mixDIIS e vn vt st =
      (case cacheResidual e vn st of
         Inl err \<Rightarrow> Inl err
       | Inr st1 \<Rightarrow>
          (case mixPlain (exCorr_needsKEdensity e) vn vt (last (pastVariables_n st))
                  (vector_back (pastVariables_tau st)) (mixFraction_default e) (eVars st) of
             Inl err \<Rightarrow> Inl err
           | Inr ev \<Rightarrow> Inr (st1\<lparr>eVars := ev\<rparr>, None))) \<and>
    (\<forall>d. mixDIIS (e\<lparr>diagonalize := d\<rparr>) vn vt st = mixDIIS e vn vt st)"
proof -
  have plain: "mixDIIS e' vn vt st =
      (case cacheResidual e' vn st of
         Inl err \<Rightarrow> Inl err
       | Inr st1 \<Rightarrow>
          (case mixPlain (exCorr_needsKEdensity e') vn vt (last (pastVariables_n st))
                  (vector_back (pastVariables_tau st)) (mixFraction_default e') (eVars st) of
             Inl err \<Rightarrow> Inl err
           | Inr ev \<Rightarrow> Inr (st1\<lparr>eVars := ev\<rparr>, None)))"
    if h: "Suc (length (pastResiduals st)) < history (residualMinimizerParams e')"
    for e' :: "'x Everything"
  proof (cases "cacheResidual e' vn st")
    case (Inl err)
    then show ?thesis by (simp add: mixDIIS_def)
  next
    case (Inr st1)
    note fr = cacheResidual_frame[OF Inr] cacheResidual_Inr(1)[OF Inr]
    from h fr show ?thesis
      by (simp add: mixDIIS_def Inr vector_back_def)
  qed
  have "mixDIIS (e\<lparr>diagonalize := d\<rparr>) vn vt st = mixDIIS e vn vt st" for d
    using plain[of e] plain[of "e\<lparr>diagonalize := d\<rparr>"] assms by (simp cong: sum.case_cong)
  with plain[OF assms] show ?thesis by simp
qed

theorem mixDIIS_short_history_is_plain_witness:
  "Suc (length (pastResiduals ex_st0)) < history (residualMinimizerParams ex_diis) \<and>
   mixDIIS ex_diis ref_n ref_tau ex_st0 =
     (case cacheResidual ex_diis ref_n ex_st0 of
        Inl err \<Rightarrow> Inl err
      | Inr st1 \<Rightarrow> Inr (st1\<lparr>eVars := ex_ev\<lparr>eVars_n := [[3 / 2, 1]]\<rparr>\<rparr>, None))"
proof -
  have h: "Suc (length (pastResiduals ex_st0)) < history (residualMinimizerParams ex_diis)"
    by (simp add: ex_st0_def ex_st_def ex_diis_def)
  have p: "mixPlain (exCorr_needsKEdensity ex_diis) ref_n ref_tau (last (pastVariables_n ex_st0))
             (vector_back (pastVariables_tau ex_st0)) (mixFraction_default ex_diis) (eVars ex_st0)
           = Inr (ex_ev\<lparr>eVars_n := [[3 / 2, 1]]\<rparr>)"
    by (simp add: ex_st0_def ex_st_def ex_diis_def ex_ev_def vector_back_def mixPlain_def
        mixPlain_in_range_def mixPlain_body_def addD_def scaleD_def)
  from mixDIIS_short_history_is_plain [OF h, of ref_n ref_tau] h show ?thesis
    by (simp add: p cong: sum.case_cong)
qed

section \<open>The extrapolation of mixDIIS\<close>

lemma upd_each_0 [simp]: "upd_each g 0 xs = xs"
  by (simp add: upd_each_def)

lemma upd_each_Suc: "upd_each g (Suc k) xs = (upd_each g k xs)[k := g k (upd_each g k xs ! k)]"
  by (simp add: upd_each_def)

lemma fold_upd_length [simp]: "length (upd_each g k xs) = length xs"
  by (induction k) (simp_all add: upd_each_Suc)

lemma fold_upd_nth:
  "s < length xs \<Longrightarrow>
   upd_each g k xs ! s = (if s < k then g s (xs ! s) else xs ! s)"
proof (induction k arbitrary: s)
  case 0
  show ?case by simp
next
  case (Suc k)
  show ?case
  proof (cases "s = k")
    case True
    with Suc.prems Suc.IH[of k] show ?thesis by (simp add: upd_each_Suc)
  next
    case False
    with Suc.prems Suc.IH[of s] show ?thesis by (simp add: upd_each_Suc)
  qed
qed

lemma get_set_n [simp]:
  "get_n vn (set_n vn v ev) = v"
  "get_tau vt (set_n vn v ev) = get_tau vt ev"
  "get_tau vt (set_tau vt v ev) = v"
  "get_n vn (set_tau vt v ev) = get_n vn ev"
  "eVars_rest (set_n vn v ev) = eVars_rest ev"
  "eVars_rest (set_tau vt v ev) = eVars_rest ev"
  by (cases vn; cases vt; simp)+

lemma get_set_other:
  "vn' \<noteq> vn \<Longrightarrow> get_n vn' (set_n vn v ev) = get_n vn' ev"
  "vt' \<noteq> vt \<Longrightarrow> get_tau vt' (set_tau vt v ev) = get_tau vt' ev"
  by (cases vn; cases vn'; cases vt; cases vt'; simp)+

lemma mixDIIS_zero_parts:
  "get_n vn (fst (mixDIIS_zero k vn vt s acc)) = (get_n vn (fst acc))[s := scaleD 0 (get_n vn (fst acc) ! s)]"
  "snd (mixDIIS_zero k vn vt s acc) = (snd acc)[s := scaleD 0 (snd acc ! s)]"
  "get_tau vt (fst (mixDIIS_zero k vn vt s acc)) =
     (if k then (get_tau vt (fst acc))[s := scaleD 0 (get_tau vt (fst acc) ! s)] else get_tau vt (fst acc))"
  by (simp_all add: mixDIIS_zero_def Let_def)

lemma mixDIIS_zero_fold:
  "get_n vn (fst (fold (mixDIIS_zero k vn vt) [0..<m] acc)) =
     upd_each (\<lambda>s x. scaleD 0 x) m (get_n vn (fst acc))"
  "snd (fold (mixDIIS_zero k vn vt) [0..<m] acc) =
     upd_each (\<lambda>s x. scaleD 0 x) m (snd acc)"
  "get_tau vt (fst (fold (mixDIIS_zero True vn vt) [0..<m] acc)) =
     upd_each (\<lambda>s x. scaleD 0 x) m (get_tau vt (fst acc))"
  "get_tau vt (fst (fold (mixDIIS_zero False vn vt) [0..<m] acc)) = get_tau vt (fst acc)"
  by (induction m; simp add: mixDIIS_zero_parts upd_each_Suc)+

lemma mixDIIS_accumulate_parts:
  "get_n vn (fst (mixDIIS_accumulate k vn vt pvn pvt pr w j s acc)) =
     (get_n vn (fst acc))[s := addD (get_n vn (fst acc) ! s) (scaleD w (pvn ! j ! s))]"
  "snd (mixDIIS_accumulate k vn vt pvn pvt pr w j s acc) =
     (snd acc)[s := addD (snd acc ! s) (scaleD w (pr ! j ! s))]"
  "get_tau vt (fst (mixDIIS_accumulate k vn vt pvn pvt pr w j s acc)) =
     (if k then (get_tau vt (fst acc))[s := addD (get_tau vt (fst acc) ! s) (scaleD w (pvt ! j ! s))]
      else get_tau vt (fst acc))"
  by (simp_all add: mixDIIS_accumulate_def Let_def)

lemma mixDIIS_accumulate_fold:
  "get_n vn (fst (fold (mixDIIS_accumulate k vn vt pvn pvt pr w j) [0..<m] acc)) =
     upd_each (\<lambda>s x. addD x (scaleD w (pvn ! j ! s))) m (get_n vn (fst acc))"
  "snd (fold (mixDIIS_accumulate k vn vt pvn pvt pr w j) [0..<m] acc) =
     upd_each (\<lambda>s x. addD x (scaleD w (pr ! j ! s))) m (snd acc)"
  "get_tau vt (fst (fold (mixDIIS_accumulate True vn vt pvn pvt pr w j) [0..<m] acc)) =
     upd_each (\<lambda>s x. addD x (scaleD w (pvt ! j ! s))) m (get_tau vt (fst acc))"
  "get_tau vt (fst (fold (mixDIIS_accumulate False vn vt pvn pvt pr w j) [0..<m] acc)) =
     get_tau vt (fst acc)"
  by (induction m; simp add: mixDIIS_accumulate_parts upd_each_Suc)+

lemma mixDIIS_outer_fold:
  "get_n vn (fst (fold (\<lambda>j. fold (mixDIIS_accumulate k vn vt pvn pvt pr (w j) j) [0..<m]) [0..<J] acc)) =
     fold (\<lambda>j. upd_each (\<lambda>s x. addD x (scaleD (w j) (pvn ! j ! s))) m) [0..<J]
       (get_n vn (fst acc))"
  "snd (fold (\<lambda>j. fold (mixDIIS_accumulate k vn vt pvn pvt pr (w j) j) [0..<m]) [0..<J] acc) =
     fold (\<lambda>j. upd_each (\<lambda>s x. addD x (scaleD (w j) (pr ! j ! s))) m) [0..<J]
       (snd acc)"
  "get_tau vt (fst (fold (\<lambda>j. fold (mixDIIS_accumulate True vn vt pvn pvt pr (w j) j) [0..<m]) [0..<J] acc)) =
     fold (\<lambda>j. upd_each (\<lambda>s x. addD x (scaleD (w j) (pvt ! j ! s))) m)
       [0..<J] (get_tau vt (fst acc))"
  "get_tau vt (fst (fold (\<lambda>j. fold (mixDIIS_accumulate False vn vt pvn pvt pr (w j) j) [0..<m]) [0..<J] acc)) =
     get_tau vt (fst acc)"
  by (induction J; simp add: mixDIIS_accumulate_fold)+

lemma zero_fold_samples:
  assumes "s < sz" "sz \<le> length xs"
  shows "length (upd_each (\<lambda>s x. scaleD 0 x) sz xs ! s) = length (xs ! s)"
    and "i < length (xs ! s) \<Longrightarrow> upd_each (\<lambda>s x. scaleD 0 x) sz xs ! s ! i = 0"
  using assms by (simp_all add: fold_upd_nth)

lemma accumulate_fold_samples:
  assumes "sz \<le> length xs" "\<forall>s<sz. length (xs ! s) = m" "\<forall>j<J. \<forall>s<sz. length (P ! j ! s) = m"
  shows "length (fold (\<lambda>j. upd_each (\<lambda>s x. addD x (scaleD (w j) (P ! j ! s))) sz)
                  [0..<J] xs) = length xs \<and>
    (\<forall>s<sz. length (fold (\<lambda>j. upd_each (\<lambda>s x. addD x (scaleD (w j) (P ! j ! s))) sz)
                  [0..<J] xs ! s) = m \<and>
       (\<forall>i<m. fold (\<lambda>j. upd_each (\<lambda>s x. addD x (scaleD (w j) (P ! j ! s))) sz)
                  [0..<J] xs ! s ! i
              = xs ! s ! i + sum_list (map (\<lambda>j. w j * (P ! j ! s ! i)) [0..<J])))"
  using assms
proof (induction J)
  case 0
  then show ?case by simp
next
  case (Suc J)
  let ?F = "fold (\<lambda>j. upd_each (\<lambda>s x. addD x (scaleD (w j) (P ! j ! s))) sz)
                  [0..<J] xs"
  from Suc have IH: "length ?F = length xs"
    "\<And>s. s < sz \<Longrightarrow> length (?F ! s) = m"
    "\<And>s i. s < sz \<Longrightarrow> i < m \<Longrightarrow> ?F ! s ! i = xs ! s ! i + sum_list (map (\<lambda>j. w j * (P ! j ! s ! i)) [0..<J])"
    by simp_all
  from Suc.prems have P: "\<And>s. s < sz \<Longrightarrow> length (P ! J ! s) = m" by simp
  have step: "fold (\<lambda>j. upd_each (\<lambda>s x. addD x (scaleD (w j) (P ! j ! s))) sz)
                  [0..<Suc J] xs
       = upd_each (\<lambda>s x. addD x (scaleD (w J) (P ! J ! s))) sz ?F"
    by simp
  have nth: "upd_each (\<lambda>s x. addD x (scaleD (w J) (P ! J ! s))) sz ?F ! s
       = addD (?F ! s) (scaleD (w J) (P ! J ! s))" if "s < sz" for s
    using that Suc.prems(1) IH(1)
    by (simp add: fold_upd_nth)
  show ?case
    unfolding step using IH P by (simp add: nth algebra_simps)
qed

lemma norm_fold: "fold (\<lambda>j nrm. nrm + f j) [0..<n] (a :: real) = a + sum_list (map f [0..<n])"
  by (induction n) simp_all

lemma sum_list_divide: "sum_list (map (\<lambda>c. c / N) cs) = sum_list cs / (N :: real)"
  by (induction cs) (simp_all add: add_divide_distrib)

lemma diis_weights_sum:
  "sum_list (diis_coefficients e st) \<noteq> 0 \<Longrightarrow> sum_list (diis_weights e st) = 1"
  by (simp add: diis_weights_def sum_list_divide)

lemma length_diis_weights [simp]: "length (diis_weights e st) = length (pastResiduals st)"
  by (simp add: diis_weights_def diis_coefficients_def Let_def)

lemma nth_diis_weights:
  "j < length (pastResiduals st) \<Longrightarrow>
   diis_weights e st ! j =
     elem (fst (diagonalize e (matrix_sub (overlap st) 0 (length (pastResiduals st)) 0
                   (length (pastResiduals st))))) j 0
     / sum_list (diis_coefficients e st)"
  by (simp add: diis_weights_def diis_coefficients_def Let_def)

lemma weighted_sum_weights:
  "weighted_sum (diis_weights e st) xs s i =
     sum_list (map (\<lambda>j. elem (fst (diagonalize e (matrix_sub (overlap st) 0 (length (pastResiduals st)) 0
                   (length (pastResiduals st))))) j 0 / sum_list (diis_coefficients e st)
                 * (xs ! j ! s ! i)) [0..<length (pastResiduals st)])"
  unfolding weighted_sum_def
  by (rule arg_cong[where f = sum_list]) (simp add: nth_diis_weights)

lemma same_shapeD:
  "same_shape sz m c \<Longrightarrow> length c = sz"
  "same_shape sz m c \<Longrightarrow> s < sz \<Longrightarrow> length (c ! s) = m"
  by (simp_all add: same_shape_def list_all_length)

lemma same_shape_all_nth:
  assumes "\<forall>c\<in>set xs. same_shape sz m c" "n \<le> length xs"
  shows "\<forall>j<n. \<forall>s<sz. length (xs ! j ! s) = m"
proof (intro allI impI)
  fix j s assume "j < n" "s < sz"
  with assms have "same_shape sz m (xs ! j)" by simp
  then show "length (xs ! j ! s) = m" using \<open>s < sz\<close> by (rule same_shapeD(2))
qed

lemma same_shape_axpy:
  assumes "same_shape sz m X" "same_shape sz m Y"
  shows "same_shape sz m (axpy a X Y)"
  using assms by (auto simp add: same_shape_def axpy_def list_all_length)

lemma extrapolate_result:
  fixes e :: "'x Everything"
  assumes rng: "mixDIIS_in_range (exCorr_needsKEdensity e) vn vt (pastVariables_n st)
                  (pastVariables_tau st) (pastResiduals st) (eVars st)"
    and norm: "sum_list (diis_coefficients e st) \<noteq> 0"
  shows "extrapolate e vn vt st =
     Inr (st\<lparr>eVars := fst (fold (\<lambda>j. fold (mixDIIS_accumulate (exCorr_needsKEdensity e) vn vt
                    (pastVariables_n st) (pastVariables_tau st) (pastResiduals st)
                    (elem (fst (diagonalize e (matrix_sub (overlap st) 0 (length (pastResiduals st)) 0
                       (length (pastResiduals st))))) j 0 / sum_list (diis_coefficients e st)) j)
                    [0..<length (eVars_n (eVars st))])
                 [0..<length (pastResiduals st)]
                 (fold (mixDIIS_zero (exCorr_needsKEdensity e) vn vt)
                    [0..<length (eVars_n (eVars st))] (eVars st, last (pastResiduals st))))\<rparr>,
          Some (snd (fold (\<lambda>j. fold (mixDIIS_accumulate (exCorr_needsKEdensity e) vn vt
                    (pastVariables_n st) (pastVariables_tau st) (pastResiduals st)
                    (elem (fst (diagonalize e (matrix_sub (overlap st) 0 (length (pastResiduals st)) 0
                       (length (pastResiduals st))))) j 0 / sum_list (diis_coefficients e st)) j)
                    [0..<length (eVars_n (eVars st))])
                 [0..<length (pastResiduals st)]
                 (fold (mixDIIS_zero (exCorr_needsKEdensity e) vn vt)
                    [0..<length (eVars_n (eVars st))] (eVars st, last (pastResiduals st))))))"
proof -
  have n: "fold (\<lambda>j nrm. nrm + elem (fst (diagonalize e (matrix_sub (overlap st) 0
               (length (pastResiduals st)) 0 (length (pastResiduals st))))) j 0)
             [0..<length (pastResiduals st)] 0
           = sum_list (diis_coefficients e st)"
    by (simp add: norm_fold diis_coefficients_def Let_def)
  show ?thesis
    using rng norm unfolding extrapolate_def Let_def n by simp
qed

lemma combination_samples:
  assumes sz: "sz \<le> length xs" and xs: "\<forall>s<sz. length (xs ! s) = m"
    and P: "\<forall>j<J. \<forall>s<sz. length (P ! j ! s) = m"
    and s: "s < sz" and i: "i < m"
  shows "fold (\<lambda>j. upd_each (\<lambda>s x. addD x (scaleD (w j) (P ! j ! s))) sz) [0..<J]
           (upd_each (\<lambda>s x. scaleD 0 x) sz xs) ! s ! i
         = sum_list (map (\<lambda>j. w j * (P ! j ! s ! i)) [0..<J])"
proof -
  let ?z = "upd_each (\<lambda>s x. scaleD 0 x) sz xs"
  have z1: "sz \<le> length ?z" using sz by simp
  have z2: "\<forall>s<sz. length (?z ! s) = m"
    using sz xs by (simp add: zero_fold_samples)
  have z3: "?z ! s ! i = 0"
    using sz xs s i by (simp add: zero_fold_samples)
  from accumulate_fold_samples[OF z1 z2 P, of w] s i z3 show ?thesis by simp
qed

lemma mixDIIS_full_history:
  fixes e :: "'x Everything"
  assumes c: "cacheResidual e vn st = Inr st1"
    and full: "length (pastResiduals st1) = history (residualMinimizerParams e)"
    and norm: "sum_list (diis_coefficients e st1) \<noteq> 0"
    and sz: "sz = length (eVars_n (eVars st))"
    and var: "same_shape sz m (get_n vn (eVars st))"
    and pvn: "\<forall>c\<in>set (pastVariables_n st). same_shape sz m c"
    and pvn_len: "length (pastResiduals st1) \<le> length (pastVariables_n st)"
    and pr: "\<forall>c\<in>set (pastResiduals st). same_shape sz m c"
    and tau: "exCorr_needsKEdensity e \<longrightarrow>
        same_shape sz m (get_tau vt (eVars st)) \<and>
        (\<forall>c\<in>set (pastVariables_tau st). same_shape sz m c) \<and>
        length (pastResiduals st1) \<le> length (pastVariables_tau st)"
  shows "(\<exists>st' residual. mixDIIS e vn vt st = Inr (st', Some residual) \<and>
       (\<forall>s<sz. \<forall>i<m.
          get_n vn (eVars st') ! s ! i
            = sum_list (map (\<lambda>j. elem (fst (diagonalize e (matrix_sub (overlap st1) 0
                 (length (pastResiduals st1)) 0 (length (pastResiduals st1))))) j 0
               / sum_list (diis_coefficients e st1) * (pastVariables_n st ! j ! s ! i))
             [0..<length (pastResiduals st1)]) \<and>
          residual ! s ! i = sum_list (map (\<lambda>j. elem (fst (diagonalize e (matrix_sub (overlap st1) 0
                 (length (pastResiduals st1)) 0 (length (pastResiduals st1))))) j 0
               / sum_list (diis_coefficients e st1) * (pastResiduals st1 ! j ! s ! i))
             [0..<length (pastResiduals st1)]) \<and>
          (exCorr_needsKEdensity e \<longrightarrow>
             get_tau vt (eVars st') ! s ! i
               = sum_list (map (\<lambda>j. elem (fst (diagonalize e (matrix_sub (overlap st1) 0
                 (length (pastResiduals st1)) 0 (length (pastResiduals st1))))) j 0
               / sum_list (diis_coefficients e st1) * (pastVariables_tau st ! j ! s ! i))
             [0..<length (pastResiduals st1)]))))"
proof -
  let ?k = "exCorr_needsKEdensity e"
  let ?nd = "length (pastResiduals st1)"
  let ?V = "fst (diagonalize e (matrix_sub (overlap st1) 0 ?nd 0 ?nd))"
  let ?w = "\<lambda>j. elem ?V j 0 / sum_list (diis_coefficients e st1)"
  note fr = cacheResidual_frame[OF c]
  have ne: "pastVariables_n st \<noteq> []" by (rule cacheResidual_Inr(1)[OF c])
  then have "last (pastVariables_n st) \<in> set (pastVariables_n st)" by simp
  with pvn have "same_shape sz m (last (pastVariables_n st))" by simp
  then have new: "same_shape sz m (axpy (- 1) (last (pastVariables_n st)) (get_n vn (eVars st)))"
    using var by (rule same_shape_axpy)
  have pr1: "\<forall>c\<in>set (pastResiduals st1). same_shape sz m c"
    using pr new by (simp add: fr)
  have last1: "same_shape sz m (last (pastResiduals st1))"
    using new by (simp add: fr)
  have P_n: "\<forall>j<?nd. \<forall>s<sz. length (pastVariables_n st ! j ! s) = m"
    using pvn pvn_len by (rule same_shape_all_nth)
  have P_r: "\<forall>j<?nd. \<forall>s<sz. length (pastResiduals st1 ! j ! s) = m"
    using pr1 by (rule same_shape_all_nth) simp
  have rng: "mixDIIS_in_range ?k vn vt (pastVariables_n st1) (pastVariables_tau st1)
               (pastResiduals st1) (eVars st1)"
    using sz var pvn pvn_len pr1 last1 tau
    by (auto simp add: mixDIIS_in_range_def Let_def fr(4-6) same_shape_def list_all_iff
        dest!: in_set_takeD)
  have m: "mixDIIS e vn vt st = extrapolate e vn vt st1"
    using c full by (simp add: mixDIIS_def)
  note res = extrapolate_result[OF rng norm]
  let ?mixed = "fold (\<lambda>j. fold (mixDIIS_accumulate ?k vn vt
                    (pastVariables_n st1) (pastVariables_tau st1) (pastResiduals st1) (?w j) j)
                    [0..<length (eVars_n (eVars st1))])
                 [0..<?nd]
                 (fold (mixDIIS_zero ?k vn vt)
                    [0..<length (eVars_n (eVars st1))] (eVars st1, last (pastResiduals st1)))"
  have len_sz: "length (eVars_n (eVars st1)) = sz" by (simp add: fr sz)
  have n_part: "get_n vn (fst ?mixed) ! s ! i
      = sum_list (map (\<lambda>j. elem (fst (diagonalize e (matrix_sub (overlap st1) 0
                 (length (pastResiduals st1)) 0 (length (pastResiduals st1))))) j 0
               / sum_list (diis_coefficients e st1) * (pastVariables_n st ! j ! s ! i))
             [0..<length (pastResiduals st1)])" if "s < sz" "i < m" for s i
  proof -
    have "get_n vn (fst ?mixed) =
        fold (\<lambda>j. upd_each (\<lambda>s x. addD x (scaleD (?w j) (pastVariables_n st ! j ! s))) sz) [0..<?nd]
          (upd_each (\<lambda>s x. scaleD 0 x) sz (get_n vn (eVars st)))"
      by (simp add: mixDIIS_outer_fold mixDIIS_zero_fold fr(4-6) sz[symmetric])
    moreover have "sz \<le> length (get_n vn (eVars st))" "\<forall>s<sz. length (get_n vn (eVars st) ! s) = m"
      using var by (simp_all add: same_shapeD)
    ultimately show ?thesis
      using combination_samples[OF _ _ P_n that, of "get_n vn (eVars st)" ?w]
      by simp
  qed
  have r_part: "snd ?mixed ! s ! i
      = sum_list (map (\<lambda>j. elem (fst (diagonalize e (matrix_sub (overlap st1) 0
                 (length (pastResiduals st1)) 0 (length (pastResiduals st1))))) j 0
               / sum_list (diis_coefficients e st1) * (pastResiduals st1 ! j ! s ! i))
             [0..<length (pastResiduals st1)])" if "s < sz" "i < m" for s i
  proof -
    have "snd ?mixed =
        fold (\<lambda>j. upd_each (\<lambda>s x. addD x (scaleD (?w j) (pastResiduals st1 ! j ! s))) sz) [0..<?nd]
          (upd_each (\<lambda>s x. scaleD 0 x) sz (last (pastResiduals st1)))"
      by (simp add: mixDIIS_outer_fold mixDIIS_zero_fold fr(4) sz[symmetric])
    moreover have "sz \<le> length (last (pastResiduals st1))"
      "\<forall>s<sz. length (last (pastResiduals st1) ! s) = m"
      using last1 by (simp_all add: same_shapeD)
    ultimately show ?thesis
      using combination_samples[OF _ _ P_r that, of "last (pastResiduals st1)" ?w]
      by simp
  qed
  have t_part: "get_tau vt (fst ?mixed) ! s ! i
      = sum_list (map (\<lambda>j. elem (fst (diagonalize e (matrix_sub (overlap st1) 0
                 (length (pastResiduals st1)) 0 (length (pastResiduals st1))))) j 0
               / sum_list (diis_coefficients e st1) * (pastVariables_tau st ! j ! s ! i))
             [0..<length (pastResiduals st1)])"
    if k: "?k" and "s < sz" "i < m" for s i
  proof -
    from k tau have "\<forall>c\<in>set (pastVariables_tau st). same_shape sz m c"
      "?nd \<le> length (pastVariables_tau st)" by simp_all
    then have P_t: "\<forall>j<?nd. \<forall>s<sz. length (pastVariables_tau st ! j ! s) = m"
      by (rule same_shape_all_nth)
    have "get_tau vt (fst ?mixed) =
        fold (\<lambda>j. upd_each (\<lambda>s x. addD x (scaleD (?w j) (pastVariables_tau st ! j ! s))) sz) [0..<?nd]
          (upd_each (\<lambda>s x. scaleD 0 x) sz (get_tau vt (eVars st)))"
      using k by (simp add: mixDIIS_outer_fold mixDIIS_zero_fold fr(4-6) sz[symmetric])
    moreover from k tau have "same_shape sz m (get_tau vt (eVars st))" by simp
    then have "sz \<le> length (get_tau vt (eVars st))" "\<forall>s<sz. length (get_tau vt (eVars st) ! s) = m"
      by (simp_all add: same_shapeD)
    ultimately show ?thesis
      using combination_samples[OF _ _ P_t that(2,3), of "get_tau vt (eVars st)" ?w]
      by simp
  qed
  have "mixDIIS e vn vt st = Inr (st1\<lparr>eVars := fst ?mixed\<rparr>, Some (snd ?mixed))"
    unfolding m res ..
  with n_part r_part t_part show ?thesis
    by simp
qed

text \<open>Claim C5. Let the history be full once the new residual is cached, let the
  components of the selected eigenvector have a sum other than zero, and let all
  collections have one shape. Then the weights of line 177 sum to 1, \<open>mixDIIS\<close>
  returns, and every sample of the returned variable is the weighted sum of the samples
  of the snapshots in the history; the same holds for the local \<open>residual\<close> and the
  residuals, and for the auxiliary variable when the kinetic-energy density is needed.\<close>

theorem diis_weighted_combination:
  fixes e :: "'x Everything"
  assumes c: "cacheResidual e vn st = Inr st1"
    and full: "length (pastResiduals st1) = history (residualMinimizerParams e)"
    and norm: "sum_list (diis_coefficients e st1) \<noteq> 0"
    and sz: "sz = length (eVars_n (eVars st))"
    and var: "same_shape sz m (get_n vn (eVars st))"
    and pvn: "\<forall>c\<in>set (pastVariables_n st). same_shape sz m c"
    and pvn_len: "length (pastResiduals st1) \<le> length (pastVariables_n st)"
    and pr: "\<forall>c\<in>set (pastResiduals st). same_shape sz m c"
    and tau: "exCorr_needsKEdensity e \<longrightarrow>
        same_shape sz m (get_tau vt (eVars st)) \<and>
        (\<forall>c\<in>set (pastVariables_tau st). same_shape sz m c) \<and>
        length (pastResiduals st1) \<le> length (pastVariables_tau st)"
  shows "sum_list (diis_weights e st1) = 1 \<and>
    (\<exists>st' residual. mixDIIS e vn vt st = Inr (st', Some residual) \<and>
       (\<forall>s<sz. \<forall>i<m.
          get_n vn (eVars st') ! s ! i
            = weighted_sum (diis_weights e st1) (pastVariables_n st) s i \<and>
          residual ! s ! i = weighted_sum (diis_weights e st1) (pastResiduals st1) s i \<and>
          (exCorr_needsKEdensity e \<longrightarrow>
             get_tau vt (eVars st') ! s ! i
               = weighted_sum (diis_weights e st1) (pastVariables_tau st) s i)))"
proof -
  from mixDIIS_full_history [OF c full norm sz var pvn pvn_len pr tau]
  obtain st' residual where "mixDIIS e vn vt st = Inr (st', Some residual)"
    and "\<forall>s<sz. \<forall>i<m.
          get_n vn (eVars st') ! s ! i
            = weighted_sum (diis_weights e st1) (pastVariables_n st) s i \<and>
          residual ! s ! i = weighted_sum (diis_weights e st1) (pastResiduals st1) s i \<and>
          (exCorr_needsKEdensity e \<longrightarrow>
             get_tau vt (eVars st') ! s ! i
               = weighted_sum (diis_weights e st1) (pastVariables_tau st) s i)"
    unfolding weighted_sum_weights by blast
  moreover have "sum_list (diis_weights e st1) = 1"
    using norm by (rule diis_weights_sum)
  ultimately show ?thesis by blast
qed

lemma ex_diis_coefficients:
  "length (pastResiduals st1) = 2 \<Longrightarrow>
   diis_coefficients ex_diis st1 = [1 / sqrt 2, 1 / sqrt 2]"
  by (simp add: diis_coefficients_def ex_diis_def ex_evecs_def Let_def upt_rec[of 0] upt_rec[of 1]
      numeral_2_eq_2)

theorem diis_weighted_combination_witness:
  "\<exists>st1. cacheResidual ex_diis ref_n ex_st = Inr st1 \<and>
      length (pastResiduals st1) = history (residualMinimizerParams ex_diis) \<and>
      sum_list (diis_coefficients ex_diis st1) \<noteq> 0 \<and>
      sum_list (diis_weights ex_diis st1) = 1 \<and>
      diis_weights ex_diis st1 = [1 / 2, 1 / 2] \<and>
      (\<exists>st' residual. mixDIIS ex_diis ref_n ref_tau ex_st = Inr (st', Some residual) \<and>
         get_n ref_n (eVars st') ! 0 ! 0 = 1 \<and> get_n ref_n (eVars st') ! 0 ! 1 = 0 \<and>
         residual ! 0 ! 0 = 1 / 2 \<and> residual ! 0 ! 1 = 1 / 2)"
proof -
  from ex_cacheResidual obtain st1 where c: "cacheResidual ex_diis ref_n ex_st = Inr st1" ..
  have pr: "pastResiduals st1 = [[[2, - 1]], [[- 1, 2]]]"
    by (simp add: cacheResidual_frame(7)[OF c] ex_st_def ex_ev_def axpy_def addD_def scaleD_def)
  have full: "length (pastResiduals st1) = history (residualMinimizerParams ex_diis)"
    by (simp add: pr ex_diis_def)
  have co: "diis_coefficients ex_diis st1 = [1 / sqrt 2, 1 / sqrt 2]"
    by (rule ex_diis_coefficients) (simp add: pr)
  have norm: "sum_list (diis_coefficients ex_diis st1) \<noteq> 0"
    by (simp add: co)
  have w: "diis_weights ex_diis st1 = [1 / 2, 1 / 2]"
    by (simp add: diis_weights_def co)
  have sz: "(1 :: nat) = length (eVars_n (eVars ex_st))"
    by (simp add: ex_st_def ex_ev_def)
  have var: "same_shape 1 2 (get_n ref_n (eVars ex_st))"
    by (simp add: ex_st_def ex_ev_def same_shape_def)
  have pvn: "\<forall>c\<in>set (pastVariables_n ex_st). same_shape 1 2 c"
    by (simp add: ex_st_def same_shape_def)
  have pvn_len: "length (pastResiduals st1) \<le> length (pastVariables_n ex_st)"
    by (simp add: pr ex_st_def)
  have prs: "\<forall>c\<in>set (pastResiduals ex_st). same_shape 1 2 c"
    by (simp add: ex_st_def same_shape_def)
  have tau: "exCorr_needsKEdensity ex_diis \<longrightarrow>
        same_shape 1 2 (get_tau ref_tau (eVars ex_st)) \<and>
        (\<forall>c\<in>set (pastVariables_tau ex_st). same_shape 1 2 c) \<and>
        length (pastResiduals st1) \<le> length (pastVariables_tau ex_st)"
    by (simp add: ex_diis_def)
  from diis_weighted_combination [OF c full norm sz var pvn pvn_len prs tau]
  obtain st' residual where
    one: "sum_list (diis_weights ex_diis st1) = 1"
    and m: "mixDIIS ex_diis ref_n ref_tau ex_st = Inr (st', Some residual)"
    and comb: "\<forall>s<1. \<forall>i<2.
          get_n ref_n (eVars st') ! s ! i
            = weighted_sum (diis_weights ex_diis st1) (pastVariables_n ex_st) s i \<and>
          residual ! s ! i = weighted_sum (diis_weights ex_diis st1) (pastResiduals st1) s i"
    by blast
  from comb have "get_n ref_n (eVars st') ! 0 ! 0 = 1 \<and> get_n ref_n (eVars st') ! 0 ! 1 = 0 \<and>
         residual ! 0 ! 0 = 1 / 2 \<and> residual ! 0 ! 1 = 1 / 2"
    by (simp add: w pr weighted_sum_def ex_st_def upt_rec[of 0] upt_rec[of 1] numeral_2_eq_2)
  with c full norm one w m show ?thesis by blast
qed

section \<open>DIIS with history depth 1\<close>

text \<open>With history depth 1 the test of line 144 fails in every call (one residual, depth
  one), so \<open>mixDIIS\<close> never reaches \<open>mixPlain\<close>: the single weight is 1 and the variable is
  set back to the snapshot at index 0 of the history.\<close>

lemma mixDIIS_history_one:
  fixes e :: "'x Everything"
  assumes H: "history (residualMinimizerParams e) = 1"
    and c: "cacheResidual e vn st = Inr st1"
    and empty: "pastResiduals st = []"
    and ev: "elem (fst (diagonalize e (matrix_sub (overlap st1) 0 1 0 1))) 0 0 \<noteq> 0"
    and sz: "sz = length (eVars_n (eVars st))"
    and var: "same_shape sz m (get_n vn (eVars st))"
    and pvn: "\<forall>c\<in>set (pastVariables_n st). same_shape sz m c"
    and tau: "exCorr_needsKEdensity e \<longrightarrow>
        same_shape sz m (get_tau vt (eVars st)) \<and>
        (\<forall>c\<in>set (pastVariables_tau st). same_shape sz m c) \<and>
        1 \<le> length (pastVariables_tau st)"
  shows "\<exists>st' residual. mixDIIS e vn vt st = Inr (st', Some residual) \<and>
       (\<forall>s<sz. \<forall>i<m. get_n vn (eVars st') ! s ! i = pastVariables_n st ! 0 ! s ! i)"
proof -
  have len: "length (pastResiduals st1) = 1"
    by (simp add: cacheResidual_frame(7)[OF c] empty)
  have co: "diis_coefficients e st1 = [elem (fst (diagonalize e (matrix_sub (overlap st1) 0 1 0 1))) 0 0]"
    by (simp add: diis_coefficients_def len)
  have norm: "sum_list (diis_coefficients e st1) \<noteq> 0"
    using ev by (simp add: co)
  have full: "length (pastResiduals st1) = history (residualMinimizerParams e)"
    by (simp add: len H)
  have ne: "pastVariables_n st \<noteq> []" by (rule cacheResidual_Inr(1)[OF c])
  then have pvn_len: "length (pastResiduals st1) \<le> length (pastVariables_n st)"
    by (cases "pastVariables_n st") (simp_all add: len)
  have pr: "\<forall>c\<in>set (pastResiduals st). same_shape sz m c"
    by (simp add: empty)
  have tau': "exCorr_needsKEdensity e \<longrightarrow>
        same_shape sz m (get_tau vt (eVars st)) \<and>
        (\<forall>c\<in>set (pastVariables_tau st). same_shape sz m c) \<and>
        length (pastResiduals st1) \<le> length (pastVariables_tau st)"
    using tau by (simp add: len)
  from mixDIIS_full_history [OF c full norm sz var pvn pvn_len pr tau'] ev
  show ?thesis
    by (simp add: len co) blast
qed

text \<open>Claim C3 fails on the code. In the configuration with history depth 1 and mixing
  fraction 1/2, with the snapshot \<open>(0, 0)\<close> and the new density \<open>(1, 2)\<close>, the DIIS step
  leaves the density at \<open>(0, 0)\<close>, while the plain mixing step gives \<open>(1/2, 1)\<close>.\<close>

theorem diis_history_one_differs_from_plain:
  "(case mixStep ex_diis1 ex_st1 of Inl err \<Rightarrow> False
    | Inr st' \<Rightarrow> eVars_n (eVars st') = [[0, 0]]) \<and>
   (case mixStep ex_plain1 ex_st1 of Inl err \<Rightarrow> False
    | Inr st' \<Rightarrow> eVars_n (eVars st') = [[1 / 2, 1]])"
  by code_simp

end
